theory Spec2Isabelle
  imports Complex_Main "HOL-Library.Sublist" "HOL-Library.AList"
begin

section \<open>JavaScript strings\<close>

text \<open>
  A JavaScript string is modelled as a \<^typ>\<open>string\<close>: one \<^typ>\<open>char\<close> per UTF-16
  code unit, for the code units below 256 (ASCII and Latin-1). The character classes
  below are the ECMAScript ones restricted to that range.
\<close>

definition code_unit :: "char \<Rightarrow> nat" where
  "code_unit c = of_char c"

text \<open>\<open>\d\<close>: the ASCII digits.\<close>

definition is_digit :: "char \<Rightarrow> bool" where
  "is_digit c = (48 \<le> code_unit c \<and> code_unit c \<le> 57)"

definition is_upper :: "char \<Rightarrow> bool" where
  "is_upper c = (65 \<le> code_unit c \<and> code_unit c \<le> 90)"

definition is_lower :: "char \<Rightarrow> bool" where
  "is_lower c = (97 \<le> code_unit c \<and> code_unit c \<le> 122)"

text \<open>\<open>\w\<close>: \<open>[A-Za-z0-9_]\<close>.\<close>

definition is_word :: "char \<Rightarrow> bool" where
  "is_word c = (is_upper c \<or> is_lower c \<or> is_digit c \<or> c = CHR ''_'')"

text \<open>
  \<open>\s\<close>, and what \<open>trim\<close> removes: tab, line feed, vertical tab, form feed, carriage
  return, space and the no-break space U+00A0 (the other white space of ECMAScript lies
  above U+00FF).
\<close>

definition is_space :: "char \<Rightarrow> bool" where
  "is_space c = (code_unit c \<in> {9, 10, 11, 12, 13, 32, 160})"

text \<open>
  \<open>toLowerCase\<close> on one code unit: \<open>A-Z\<close> and the Latin-1 capitals U+00C0..U+00DE
  (without the multiplication sign U+00D7) move up by 32, which sets bit 5.
\<close>

definition toLowerCase_char :: "char \<Rightarrow> char" where
  "toLowerCase_char c =
     (if is_upper c \<or> (192 \<le> code_unit c \<and> code_unit c \<le> 222 \<and> code_unit c \<noteq> 215)
      then (case c of Char b0 b1 b2 b3 b4 b5 b6 b7 \<Rightarrow> Char b0 b1 b2 b3 b4 True b6 b7)
      else c)"

definition toLowerCase :: "string \<Rightarrow> string" where
  "toLowerCase s = map toLowerCase_char s"

text \<open>\<open>s.startsWith(p)\<close>, \<open>s.endsWith(p)\<close> and \<open>s.includes(p)\<close>.\<close>

fun startsWith :: "string \<Rightarrow> string \<Rightarrow> bool" where
  "startsWith s [] = True"
| "startsWith [] (p # ps) = False"
| "startsWith (c # cs) (p # ps) = (c = p \<and> startsWith cs ps)"

definition endsWith :: "string \<Rightarrow> string \<Rightarrow> bool" where
  "endsWith s p = startsWith (rev s) (rev p)"

fun str_includes :: "string \<Rightarrow> string \<Rightarrow> bool" where
  "str_includes [] p = (p = [])"
| "str_includes (c # cs) p = (startsWith (c # cs) p \<or> str_includes cs p)"

text \<open>\<open>s.trim()\<close>.\<close>

definition trim :: "string \<Rightarrow> string" where
  "trim s = rev (dropWhile is_space (rev (dropWhile is_space s)))"

text \<open>
  \<open>a || b\<close> where \<open>a\<close> is an object or \<open>undefined\<close> (\<open>None\<close>): an object is truthy.
\<close>

definition or_else :: "'a option \<Rightarrow> 'a option \<Rightarrow> 'a option" where
  "or_else a b = (case a of Some v \<Rightarrow> Some v | None \<Rightarrow> b)"

text \<open>\<open>xs[i]\<close> on an array: \<open>undefined\<close> (\<open>None\<close>) out of range.\<close>

definition at_index :: "'a list \<Rightarrow> nat \<Rightarrow> 'a option" where
  "at_index xs i = (if i < length xs then Some (xs ! i) else None)"

section \<open>Regular expressions\<close>

text \<open>
  The regular expressions of the sources are built from single-character classes,
  concatenation, alternation, greedy and lazy stars of a character class, capturing
  groups, a greedy optional group and the end-of-input assertion. \<open>rmatch\<close> is the
  backtracking matcher of ECMAScript in continuation-passing style: \<open>rmatch r s g k\<close>
  matches \<open>r\<close> at the head of \<open>s\<close> with the captures \<open>g\<close> so far and hands the rest of the
  input and the new captures to \<open>k\<close>; \<open>None\<close> makes the matcher try its next choice, so
  the first success in the order of the choices is the result.
\<close>

datatype regex =
    Chr "char \<Rightarrow> bool"        \<comment> \<open>one character of a class\<close>
  | Eps                      \<comment> \<open>the empty pattern\<close>
  | Seq regex regex
  | Alt regex regex          \<comment> \<open>\<open>a|b\<close>: \<open>a\<close> first\<close>
  | Star "char \<Rightarrow> bool"       \<comment> \<open>\<open>[..]*\<close>: the longest run first\<close>
  | StarLazy "char \<Rightarrow> bool"   \<comment> \<open>\<open>[..]*?\<close>: the shortest run first\<close>
  | Group nat regex          \<comment> \<open>the capturing group of that number\<close>
  | Opt regex                \<comment> \<open>\<open>(?:a)?\<close>: with \<open>a\<close> first\<close>
  | Eos                      \<comment> \<open>\<open>$\<close> without the multiline flag\<close>

type_synonym captures = "nat \<rightharpoonup> string"

fun star_greedy :: "(char \<Rightarrow> bool) \<Rightarrow> string \<Rightarrow> (string \<Rightarrow> 'r option) \<Rightarrow> 'r option" where
  "star_greedy p [] k = k []"
| "star_greedy p (c # cs) k =
     (if p c then (case star_greedy p cs k of Some r \<Rightarrow> Some r | None \<Rightarrow> k (c # cs))
      else k (c # cs))"

fun star_lazy :: "(char \<Rightarrow> bool) \<Rightarrow> string \<Rightarrow> (string \<Rightarrow> 'r option) \<Rightarrow> 'r option" where
  "star_lazy p [] k = k []"
| "star_lazy p (c # cs) k =
     (case k (c # cs) of Some r \<Rightarrow> Some r
      | None \<Rightarrow> if p c then star_lazy p cs k else None)"

primrec rmatch ::
  "regex \<Rightarrow> string \<Rightarrow> captures \<Rightarrow> (string \<Rightarrow> captures \<Rightarrow> 'r option) \<Rightarrow> 'r option" where
  "rmatch (Chr p) = (\<lambda>s g k. case s of [] \<Rightarrow> None | c # cs \<Rightarrow> if p c then k cs g else None)"
| "rmatch Eps = (\<lambda>s g k. k s g)"
| "rmatch (Seq a b) = (\<lambda>s g k. rmatch a s g (\<lambda>s' g'. rmatch b s' g' k))"
| "rmatch (Alt a b) =
     (\<lambda>s g k. case rmatch a s g k of Some r \<Rightarrow> Some r | None \<Rightarrow> rmatch b s g k)"
| "rmatch (Star p) = (\<lambda>s g k. star_greedy p s (\<lambda>s'. k s' g))"
| "rmatch (StarLazy p) = (\<lambda>s g k. star_lazy p s (\<lambda>s'. k s' g))"
| "rmatch (Group n a) =
     (\<lambda>s g k. rmatch a s g (\<lambda>s' g'. k s' (g'(n \<mapsto> take (length s - length s') s))))"
| "rmatch (Opt a) = (\<lambda>s g k. case rmatch a s g k of Some r \<Rightarrow> Some r | None \<Rightarrow> k s g)"
| "rmatch Eos = (\<lambda>s g k. if s = [] then k s g else None)"

text \<open>
  A match at the head of \<open>s\<close>: the number of characters matched and the captures.
\<close>

definition match_here :: "regex \<Rightarrow> string \<Rightarrow> (nat \<times> captures) option" where
  "match_here r s = rmatch r s Map.empty (\<lambda>s' g. Some (length s - length s', g))"

text \<open>Patterns: a literal, a literal under the \<open>i\<close> flag, \<open>[..]+\<close>, a sequence.\<close>

abbreviation any_char :: "char \<Rightarrow> bool" where
  "any_char \<equiv> (\<lambda>c. True)"

abbreviation is_char :: "char \<Rightarrow> char \<Rightarrow> bool" where
  "is_char a \<equiv> (\<lambda>c. c = a)"

text \<open>
  Under the \<open>i\<close> flag two code units match when their upper-case forms agree; against
  an ASCII pattern character only ASCII letters have another case.
\<close>

definition is_char_ci :: "char \<Rightarrow> char \<Rightarrow> bool" where
  "is_char_ci a c = (toLowerCase_char c = toLowerCase_char a \<and> code_unit c < 128)"

fun lit :: "string \<Rightarrow> regex" where
  "lit [] = Eps"
| "lit [c] = Chr (is_char c)"
| "lit (c # cs) = Seq (Chr (is_char c)) (lit cs)"

fun lit_ci :: "string \<Rightarrow> regex" where
  "lit_ci [] = Eps"
| "lit_ci [c] = Chr (is_char_ci c)"
| "lit_ci (c # cs) = Seq (Chr (is_char_ci c)) (lit_ci cs)"

definition plus :: "(char \<Rightarrow> bool) \<Rightarrow> regex" where
  "plus p = Seq (Chr p) (Star p)"

fun seqs :: "regex list \<Rightarrow> regex" where
  "seqs [] = Eps"
| "seqs [r] = r"
| "seqs (r # rs) = Seq r (seqs rs)"

subsection \<open>What a match consumes\<close>

lemma star_greedy_result: "star_greedy p s k = Some res \<Longrightarrow> \<exists>s'. k s' = Some res"
  by (induction p s k rule: star_greedy.induct) (auto split: if_splits option.splits)

lemma star_lazy_result: "star_lazy p s k = Some res \<Longrightarrow> \<exists>s'. k s' = Some res"
  by (induction p s k rule: star_lazy.induct) (auto split: if_splits option.splits)

lemma rmatch_result: "rmatch r s g k = Some res \<Longrightarrow> \<exists>s' g'. k s' g' = Some res"
proof (induction r arbitrary: s g k)
  case (Chr p)
  then show ?case by (auto split: list.splits if_splits)
next
  case Eps
  then show ?case by auto
next
  case (Seq a b)
  from Seq.prems have "rmatch a s g (\<lambda>s' g'. rmatch b s' g' k) = Some res" by simp
  from Seq.IH(1) [OF this] obtain s1 g1 where "rmatch b s1 g1 k = Some res" by blast
  from Seq.IH(2) [OF this] show ?case .
next
  case (Alt a b)
  then show ?case by (auto split: option.splits)
next
  case (Star p)
  from Star.prems have "star_greedy p s (\<lambda>s'. k s' g) = Some res" by simp
  from star_greedy_result [OF this] show ?case by blast
next
  case (StarLazy p)
  from StarLazy.prems have "star_lazy p s (\<lambda>s'. k s' g) = Some res" by simp
  from star_lazy_result [OF this] show ?case by blast
next
  case (Group n a)
  from Group.prems
  have "rmatch a s g (\<lambda>s' g'. k s' (g'(n \<mapsto> take (length s - length s') s))) = Some res"
    by simp
  from Group.IH [OF this] show ?case by blast
next
  case (Opt a)
  then show ?case by (auto split: option.splits)
next
  case Eos
  then show ?case by (auto split: if_splits)
qed

lemma match_here_le: "match_here r s = Some (n, g) \<Longrightarrow> n \<le> length s"
  unfolding match_here_def by (drule rmatch_result) auto

subsection \<open>The string methods that take a regular expression\<close>

text \<open>
  \<open>s.match(r)\<close> without the \<open>g\<close> flag, and \<open>r.test(s)\<close>: the match at the leftmost
  position that has one, as its text and its captures.
\<close>

fun js_match :: "regex \<Rightarrow> string \<Rightarrow> (string \<times> captures) option" where
  "js_match r s =
     (case match_here r s of
        Some (n, g) \<Rightarrow> Some (take n s, g)
      | None \<Rightarrow> (case s of [] \<Rightarrow> None | c # cs \<Rightarrow> js_match r cs))"

definition js_test :: "regex \<Rightarrow> string \<Rightarrow> bool" where
  "js_test r s = (js_match r s \<noteq> None)"

text \<open>
  \<open>s.replace(r, rep)\<close> with the \<open>g\<close> flag: every match, from the left, each search
  starting where the last match ended (one character further after an empty match),
  is replaced by the fixed text \<open>rep\<close>.
\<close>

function js_replace_all :: "regex \<Rightarrow> string \<Rightarrow> string \<Rightarrow> string" where
  "js_replace_all r rep s =
     (case match_here r s of
        Some (n, g) \<Rightarrow>
          if n = 0 then (case s of [] \<Rightarrow> rep | c # cs \<Rightarrow> rep @ c # js_replace_all r rep cs)
          else rep @ js_replace_all r rep (drop n s)
      | None \<Rightarrow> (case s of [] \<Rightarrow> [] | c # cs \<Rightarrow> c # js_replace_all r rep cs))"
  by pat_completeness auto
termination
proof (relation "measure (\<lambda>(r, rep, s). length s)")
  fix r :: regex and rep s :: string and x2 :: "nat \<times> captures" and n g
  assume "match_here r s = Some x2" and "(n, g) = x2" and "n \<noteq> 0"
  then have "n \<le> length s" by (auto dest: match_here_le)
  with \<open>n \<noteq> 0\<close> show "((r, rep, drop n s), r, rep, s) \<in> measure (\<lambda>(r, rep, s). length s)"
    by simp
qed auto

declare js_replace_all.simps [simp del]

text \<open>
  \<open>[...s.matchAll(r)]\<close> with the \<open>g\<close> flag: the captures of every match, from the left.
\<close>

function js_matchAll :: "regex \<Rightarrow> string \<Rightarrow> captures list" where
  "js_matchAll r s =
     (case match_here r s of
        Some (n, g) \<Rightarrow>
          if n = 0 then (case s of [] \<Rightarrow> [g] | c # cs \<Rightarrow> g # js_matchAll r cs)
          else g # js_matchAll r (drop n s)
      | None \<Rightarrow> (case s of [] \<Rightarrow> [] | c # cs \<Rightarrow> js_matchAll r cs))"
  by pat_completeness auto
termination
proof (relation "measure (\<lambda>(r, s). length s)")
  fix r :: regex and s :: string and x2 :: "nat \<times> captures" and n g
  assume "match_here r s = Some x2" and "(n, g) = x2" and "n \<noteq> 0"
  then have "n \<le> length s" by (auto dest: match_here_le)
  with \<open>n \<noteq> 0\<close> show "((r, drop n s), r, s) \<in> measure (\<lambda>(r, s). length s)"
    by simp
qed auto

declare js_matchAll.simps [simp del]

section \<open>The template model\<close>

text \<open>The interface \<open>TemplateData\<close> of \<open>src/services/presentationGenerator.ts\<close>.\<close>

record box =
  box_x :: real
  box_y :: real
  box_w :: real
  box_h :: real

record layout =
  layout_name :: string
  titleBox :: "box option"
  contentBox :: "box option"

definition fallback_titleBox :: box where
  "fallback_titleBox = \<lparr>box_x = 0.5, box_y = 0.5, box_w = 9, box_h = 1.2\<rparr>"

definition fallback_contentBox :: box where
  "fallback_contentBox = \<lparr>box_x = 0.5, box_y = 2, box_w = 9, box_h = 4.5\<rparr>"

text \<open>The colours, the fonts and the whole template, with the defaults of the source.\<close>

record ColorScheme =
  color_primary :: string
  color_secondary :: string
  color_accent :: string
  color_text :: string
  color_background :: string

record FontScheme =
  font_title :: string
  font_body :: string

record TemplateData =
  td_colors :: ColorScheme
  td_fonts :: FontScheme
  td_layouts :: "layout list"
  td_images :: "(string \<times> string) list"
  td_slideSize :: "(real \<times> real) option"

definition default_colors :: ColorScheme where
  "default_colors =
     \<lparr>color_primary = ''#2563eb'', color_secondary = ''#7c3aed'', color_accent = ''#059669'',
      color_text = ''#374151'', color_background = ''#ffffff''\<rparr>"

definition default_fonts :: FontScheme where
  "default_fonts = \<lparr>font_title = ''Calibri'', font_body = ''Calibri''\<rparr>"

definition default_TemplateData :: TemplateData where
  "default_TemplateData =
     \<lparr>td_colors = default_colors, td_fonts = default_fonts, td_layouts = [], td_images = [],
      td_slideSize = Some (10, 7.5)\<rparr>"

section \<open>Layout selection\<close>

text \<open>
  The fallback layout of \<open>createPresentationWithTemplate\<close>, used when no layout was
  selected.
\<close>

definition default_layout :: layout where
  "default_layout =
     \<lparr>layout_name = ''Default'',
      titleBox = Some fallback_titleBox,
      contentBox = Some fallback_contentBox\<rparr>"

text \<open>The callback \<open>l => l.name.toLowerCase().includes('title')\<close>.\<close>

definition name_includes_title :: "layout \<Rightarrow> bool" where
  "name_includes_title l = str_includes (toLowerCase (layout_name l)) ''title''"

text \<open>
  The layout choice at the head of the \<open>forEach\<close> body of
  \<open>createPresentationWithTemplate\<close>, for a slide of type \<open>ty\<close>:
  \<^verbatim>\<open>
    let layout = layouts[0];
    if (slideData.type === 'title' && layouts.length > 1) {
      layout = layouts.find(l => l.name.toLowerCase().includes('title')) || layouts[0];
    } else if (layouts.length > 1) {
      layout = layouts.find(l => !l.name.toLowerCase().includes('title')) || layouts[1] || layouts[0];
    }
    if (!layout) { layout = { name: 'Default', titleBox: ..., contentBox: ... }; }
  \<close>
\<close>

definition chooseLayout :: "layout list \<Rightarrow> string \<Rightarrow> layout" where
  "chooseLayout layouts ty =
     (let layout =
        (if ty = ''title'' \<and> length layouts > 1
         then or_else (find name_includes_title layouts) (at_index layouts 0)
         else if length layouts > 1
         then or_else (find (\<lambda>l. \<not> name_includes_title l) layouts)
                (or_else (at_index layouts 1) (at_index layouts 0))
         else at_index layouts 0)
      in case layout of None \<Rightarrow> default_layout | Some l \<Rightarrow> l)"

text \<open>
  The second copy of the generator (\<open>src/unnamed/part_001\<close>) chooses differently, at the
  same place of its \<open>createPresentationWithTemplate\<close>. The type of the slide is not
  consulted:
  \<^verbatim>\<open>
    let layout = layouts[0] || {
      name: 'Default',
      titleBox: { x: 0.5, y: 0.5, w: 9, h: 1.2 },
      contentBox: { x: 0.5, y: 2, w: 9, h: 4.5 }
    };
  \<close>
\<close>

definition chooseLayout_part_001 :: "layout list \<Rightarrow> layout" where
  "chooseLayout_part_001 layouts =
     (case at_index layouts 0 of Some l \<Rightarrow> l | None \<Rightarrow> default_layout)"

text \<open>
  The words of the specification: a name contains \<open>title\<close> case-insensitively, and a
  layout is the first of a list with a property.
\<close>

definition contains_title :: "layout \<Rightarrow> bool" where
  "contains_title l = (\<exists>pre post. toLowerCase (layout_name l) = pre @ ''title'' @ post)"

definition first_with :: "('a \<Rightarrow> bool) \<Rightarrow> 'a list \<Rightarrow> 'a \<Rightarrow> bool" where
  "first_with P xs l = (\<exists>i < length xs. xs ! i = l \<and> P l \<and> (\<forall>j < i. \<not> P (xs ! j)))"

subsection \<open>Substring search\<close>

lemma startsWith_iff: "startsWith s p \<longleftrightarrow> (\<exists>post. s = p @ post)"
  by (induction s p rule: startsWith.induct) auto

lemma str_includes_iff: "str_includes s p \<longleftrightarrow> (\<exists>pre post. s = pre @ p @ post)"
proof (induction s)
  case Nil
  then show ?case by simp
next
  case (Cons c cs)
  show ?case
  proof
    assume "str_includes (c # cs) p"
    then consider "startsWith (c # cs) p" | "str_includes cs p" by auto
    then show "\<exists>pre post. c # cs = pre @ p @ post"
    proof cases
      case 1
      then obtain post where "c # cs = p @ post" by (auto simp: startsWith_iff)
      then have "c # cs = [] @ p @ post" by simp
      then show ?thesis by blast
    next
      case 2
      then obtain pre post where "cs = pre @ p @ post" using Cons.IH by auto
      then have "c # cs = (c # pre) @ p @ post" by simp
      then show ?thesis by blast
    qed
  next
    assume "\<exists>pre post. c # cs = pre @ p @ post"
    then obtain pre post where e: "c # cs = pre @ p @ post" by auto
    show "str_includes (c # cs) p"
    proof (cases pre)
      case Nil
      with e have "startsWith (c # cs) p" by (auto simp: startsWith_iff)
      then show ?thesis by simp
    next
      case (Cons a pre')
      with e have "cs = pre' @ p @ post" by simp
      then have "str_includes cs p" using Cons.IH by auto
      then show ?thesis by simp
    qed
  qed
qed

lemma name_includes_title_iff: "name_includes_title l \<longleftrightarrow> contains_title l"
  by (simp add: name_includes_title_def contains_title_def str_includes_iff)

subsection \<open>\<open>Array.prototype.find\<close> returns the first element with the property\<close>

lemma find_Some_first_with: "find P xs = Some l \<Longrightarrow> first_with P xs l"
  unfolding first_with_def find_Some_iff by auto

lemma find_None_all: "find P xs = None \<longleftrightarrow> (\<forall>l \<in> set xs. \<not> P l)"
  by (auto simp: find_None_iff)

lemma find_exists_Some: "\<exists>l \<in> set xs. P l \<Longrightarrow> \<exists>l. find P xs = Some l"
  by (cases "find P xs") (auto simp: find_None_iff)

subsection \<open>C2: the preference order of the layout choice\<close>

text \<open>
  C2, as the code has it. In \<open>src/services/presentationGenerator.ts\<close>: for a slide of
  type \<open>title\<close> and more than one layout, the choice is the first layout whose name
  contains \<open>title\<close> case-insensitively, and the first layout when there is none; for
  another slide and more than one layout, it is the first layout whose name does not
  contain \<open>title\<close>, and the second layout when there is none (the first is then never
  reached); with one layout it is that layout; with no layout it is the hardcoded
  default geometry, title box \<open>{0.5, 0.5, 9, 1.2}\<close> and content box
  \<open>{0.5, 2, 9, 4.5}\<close>. In the second copy of the generator every slide, whatever its
  type, gets the first layout, and the same default geometry when there is no layout.
\<close>

theorem chooseLayout_preference:
  "(1 < length layouts \<and> ty = ''title'' \<and> (\<exists>l \<in> set layouts. contains_title l)
      \<longrightarrow> first_with contains_title layouts (chooseLayout layouts ty))
   \<and> (1 < length layouts \<and> ty = ''title'' \<and> (\<forall>l \<in> set layouts. \<not> contains_title l)
      \<longrightarrow> chooseLayout layouts ty = layouts ! 0)
   \<and> (1 < length layouts \<and> ty \<noteq> ''title'' \<and> (\<exists>l \<in> set layouts. \<not> contains_title l)
      \<longrightarrow> first_with (\<lambda>l. \<not> contains_title l) layouts (chooseLayout layouts ty))
   \<and> (1 < length layouts \<and> ty \<noteq> ''title'' \<and> (\<forall>l \<in> set layouts. contains_title l)
      \<longrightarrow> chooseLayout layouts ty = layouts ! 1)
   \<and> (length layouts = 1 \<longrightarrow> chooseLayout layouts ty = layouts ! 0)
   \<and> (layouts = [] \<longrightarrow>
        chooseLayout layouts ty = default_layout
        \<and> titleBox (chooseLayout layouts ty)
            = Some \<lparr>box_x = 0.5, box_y = 0.5, box_w = 9, box_h = 1.2\<rparr>
        \<and> contentBox (chooseLayout layouts ty)
            = Some \<lparr>box_x = 0.5, box_y = 2, box_w = 9, box_h = 4.5\<rparr>)
   \<and> chooseLayout_part_001 layouts = (if layouts = [] then default_layout else layouts ! 0)"
proof -
  have same: "name_includes_title = contains_title"
    by (rule ext) (rule name_includes_title_iff)
  have a: "first_with contains_title layouts (chooseLayout layouts ty)"
    if h1: "1 < length layouts" and h2: "ty = ''title''" and h3: "\<exists>l \<in> set layouts. contains_title l"
  proof -
    obtain l where l: "find contains_title layouts = Some l"
      using find_exists_Some [OF h3] by blast
    then have "chooseLayout layouts ty = l"
      using h1 h2 by (simp add: chooseLayout_def same or_else_def)
    with find_Some_first_with [OF l] show ?thesis by simp
  qed
  have b: "chooseLayout layouts ty = layouts ! 0"
    if h1: "1 < length layouts" and h2: "ty = ''title''" and h3: "\<forall>l \<in> set layouts. \<not> contains_title l"
  proof -
    have "find contains_title layouts = None"
      using h3 by (simp add: find_None_all)
    then show ?thesis
      using h1 h2 by (auto simp: chooseLayout_def same or_else_def at_index_def)
  qed
  have c: "first_with (\<lambda>l. \<not> contains_title l) layouts (chooseLayout layouts ty)"
    if h1: "1 < length layouts" and h2: "ty \<noteq> ''title''" and h3: "\<exists>l \<in> set layouts. \<not> contains_title l"
  proof -
    obtain l where l: "find (\<lambda>l. \<not> contains_title l) layouts = Some l"
      using find_exists_Some [of layouts "\<lambda>l. \<not> contains_title l"] h3 by blast
    then have "chooseLayout layouts ty = l"
      using h1 h2 by (simp add: chooseLayout_def same or_else_def)
    with find_Some_first_with [OF l] show ?thesis by simp
  qed
  have d: "chooseLayout layouts ty = layouts ! 1"
    if h1: "1 < length layouts" and h2: "ty \<noteq> ''title''" and h3: "\<forall>l \<in> set layouts. contains_title l"
  proof -
    have "find (\<lambda>l. \<not> contains_title l) layouts = None"
      using h3 by (simp add: find_None_all)
    then show ?thesis
      using h1 h2 by (auto simp: chooseLayout_def same or_else_def at_index_def)
  qed
  have e: "chooseLayout layouts ty = layouts ! 0" if "length layouts = 1"
    using that by (simp add: chooseLayout_def at_index_def)
  have f: "chooseLayout [] ty = default_layout"
    by (simp add: chooseLayout_def at_index_def)
  have g: "titleBox default_layout = Some \<lparr>box_x = 0.5, box_y = 0.5, box_w = 9, box_h = 1.2\<rparr>"
    "contentBox default_layout = Some \<lparr>box_x = 0.5, box_y = 2, box_w = 9, box_h = 4.5\<rparr>"
    by (simp_all add: default_layout_def fallback_titleBox_def fallback_contentBox_def)
  have h: "chooseLayout_part_001 layouts = (if layouts = [] then default_layout else layouts ! 0)"
    by (simp add: chooseLayout_part_001_def at_index_def)
  show ?thesis
    using a b c d e f g h by auto
qed

definition example_layouts :: "layout list" where
  "example_layouts =
     [\<lparr>layout_name = ''Master Layout'', titleBox = None, contentBox = None\<rparr>,
      \<lparr>layout_name = ''Title Slide'', titleBox = None, contentBox = None\<rparr>,
      \<lparr>layout_name = ''Blank'', titleBox = None, contentBox = None\<rparr>]"

lemma example_layouts_title:
  "contains_title \<lparr>layout_name = ''Title Slide'', titleBox = None, contentBox = None\<rparr>"
  unfolding name_includes_title_iff [symmetric]
  by (simp add: name_includes_title_def toLowerCase_def toLowerCase_char_def
      is_upper_def code_unit_def)

theorem chooseLayout_preference_witness:
  "1 < length example_layouts
   \<and> (\<exists>l \<in> set example_layouts. contains_title l)
   \<and> first_with contains_title example_layouts (chooseLayout example_layouts ''title'')
   \<and> chooseLayout example_layouts ''title''
       = \<lparr>layout_name = ''Title Slide'', titleBox = None, contentBox = None\<rparr>"
proof -
  have ex: "\<exists>l \<in> set example_layouts. contains_title l"
    using example_layouts_title by (simp add: example_layouts_def)
  have len: "1 < length example_layouts"
    by (simp add: example_layouts_def)
  have "first_with contains_title example_layouts (chooseLayout example_layouts ''title'')"
    using chooseLayout_preference [of example_layouts "''title''"] ex len by simp
  moreover have "chooseLayout example_layouts ''title''
       = \<lparr>layout_name = ''Title Slide'', titleBox = None, contentBox = None\<rparr>"
    by (simp add: chooseLayout_def example_layouts_def or_else_def name_includes_title_def
        toLowerCase_def toLowerCase_char_def is_upper_def code_unit_def)
  ultimately show ?thesis
    using ex len by simp
qed

text \<open>
  The claim as stated fails on the second copy of the generator: with the master layout
  first and a layout named \<open>Title Slide\<close> after it, a slide of type \<open>title\<close> gets the
  master layout, whose name does not contain \<open>title\<close>, and not the layout
  \<open>Title Slide\<close> that the preference order selects.
\<close>

theorem first_layout_counterexample:
  "chooseLayout_part_001 example_layouts
     = \<lparr>layout_name = ''Master Layout'', titleBox = None, contentBox = None\<rparr>
   \<and> \<not> name_includes_title (chooseLayout_part_001 example_layouts)
   \<and> chooseLayout example_layouts ''title''
       = \<lparr>layout_name = ''Title Slide'', titleBox = None, contentBox = None\<rparr>
   \<and> name_includes_title (chooseLayout example_layouts ''title'')"
  by (simp add: chooseLayout_part_001_def chooseLayout_def example_layouts_def or_else_def
      at_index_def name_includes_title_def
      toLowerCase_def toLowerCase_char_def is_upper_def code_unit_def)

section \<open>The output file name\<close>

text \<open>
  The end of \<open>createPresentationWithTemplate\<close>:
  \<^verbatim>\<open>
    const cleanTitle = structure.title.replace(/[^\w\s-]/g, '').trim()
                         .replace(/\s+/g, '_').substring(0, 50);
    const fileName = `${cleanTitle || 'Presentation'}.pptx`;
  \<close>
\<close>

definition not_word_space_hyphen :: "char \<Rightarrow> bool" where
  "not_word_space_hyphen c = (\<not> (is_word c \<or> is_space c \<or> c = CHR ''-''))"

definition cleanTitle :: "string \<Rightarrow> string" where
  "cleanTitle title =
     take 50 (js_replace_all (plus is_space) ''_''
       (trim (js_replace_all (Chr not_word_space_hyphen) [] title)))"

definition fileBase :: "string \<Rightarrow> string" where
  "fileBase title = (let c = cleanTitle title in if c = [] then ''Presentation'' else c)"

definition fileName :: "string \<Rightarrow> string" where
  "fileName title = fileBase title @ ''.pptx''"

text \<open>
  The derivation in the words of the specification: keep the word, space and hyphen
  characters, trim, turn each maximal run of white space into one underscore, keep 50
  characters, and take \<open>Presentation\<close> when nothing is left.
\<close>

function collapse_whitespace :: "string \<Rightarrow> string" where
  "collapse_whitespace [] = []"
| "collapse_whitespace (c # cs) =
     (if is_space c then CHR ''_'' # collapse_whitespace (dropWhile is_space cs)
      else c # collapse_whitespace cs)"
  by pat_completeness auto
termination
  by (relation "measure length") (auto simp: length_dropWhile_le less_Suc_eq_le)

definition derived_base :: "string \<Rightarrow> string" where
  "derived_base title =
     (let kept = filter (\<lambda>c. is_word c \<or> is_space c \<or> c = CHR ''-'') title;
          s = take 50 (collapse_whitespace (trim kept))
      in if s = [] then ''Presentation'' else s)"

subsection \<open>The two replacements\<close>

lemma match_here_Chr:
  "match_here (Chr p) s =
     (case s of [] \<Rightarrow> None | c # cs \<Rightarrow> if p c then Some (1, Map.empty) else None)"
  by (simp add: match_here_def split: list.splits)

lemma replace_all_Chr_empty: "js_replace_all (Chr p) [] s = filter (\<lambda>c. \<not> p c) s"
proof (induction s)
  case Nil
  show ?case by (simp add: js_replace_all.simps [of _ _ "[]"] match_here_Chr)
next
  case (Cons c cs)
  then show ?case by (simp add: js_replace_all.simps [of _ _ "c # cs"] match_here_Chr)
qed

lemma star_greedy_total:
  assumes "\<forall>s'. k s' \<noteq> None"
  shows "star_greedy p s k = k (dropWhile p s)"
proof (induction s)
  case Nil
  show ?case by simp
next
  case (Cons c cs)
  from assms obtain y where "k (dropWhile p cs) = Some y" by fastforce
  with Cons show ?case by simp
qed

lemma match_here_plus:
  "match_here (plus p) s =
     (case s of [] \<Rightarrow> None
      | c # cs \<Rightarrow> if p c then Some (Suc (length (takeWhile p cs)), Map.empty) else None)"
proof (cases s)
  case Nil
  then show ?thesis by (simp add: match_here_def plus_def)
next
  case (Cons c cs)
  have "length cs - length (dropWhile p cs) = length (takeWhile p cs)"
    by (metis add_diff_cancel_right' length_append takeWhile_dropWhile_id)
  moreover have "length (dropWhile p cs) \<le> length cs" by (rule length_dropWhile_le)
  ultimately have "Suc (length cs) - length (dropWhile p cs) = Suc (length (takeWhile p cs))"
    by simp
  then show ?thesis
    using Cons by (simp add: match_here_def plus_def star_greedy_total)
qed

lemma drop_takeWhile: "drop (length (takeWhile p cs)) cs = dropWhile p cs"
  by (metis append_eq_conv_conj takeWhile_dropWhile_id)

lemma replace_all_plus_space:
  "js_replace_all (plus is_space) ''_'' s = collapse_whitespace s"
proof (induction s rule: collapse_whitespace.induct)
  case 1
  show ?case by (simp add: js_replace_all.simps [of _ _ "[]"] match_here_plus)
next
  case (2 c cs)
  then show ?case
    by (simp add: js_replace_all.simps [of _ _ "c # cs"] match_here_plus drop_takeWhile)
qed

lemma fileBase_refines: "fileBase title = derived_base title"
  by (simp add: fileBase_def derived_base_def cleanTitle_def replace_all_Chr_empty
      replace_all_plus_space not_word_space_hyphen_def Let_def)

lemma derived_base_no_kept:
  assumes "\<forall>c \<in> set title. \<not> is_word c \<and> c \<noteq> CHR ''-''"
  shows "derived_base title = ''Presentation''"
proof -
  let ?kept = "filter (\<lambda>c. is_word c \<or> is_space c \<or> c = CHR ''-'') title"
  have "\<forall>c \<in> set ?kept. is_space c" using assms by auto
  then have a: "dropWhile is_space ?kept = []" by (simp only: dropWhile_eq_Nil_conv)
  have "trim ?kept = []" unfolding trim_def a by simp
  then show ?thesis by (simp add: derived_base_def)
qed

subsection \<open>When the cleaned title is empty\<close>

lemma is_space_not_kept: "is_space c \<Longrightarrow> \<not> is_word c \<and> c \<noteq> CHR ''-''"
  by (auto simp: is_space_def is_word_def is_upper_def is_lower_def is_digit_def code_unit_def)

lemma collapse_whitespace_Nil_iff: "collapse_whitespace s = [] \<longleftrightarrow> s = []"
  by (cases s) auto

lemma trim_Nil_iff: "trim s = [] \<longleftrightarrow> (\<forall>c \<in> set s. is_space c)"
proof
  assume "trim s = []"
  then have "dropWhile is_space (rev (dropWhile is_space s)) = []" by (simp add: trim_def)
  then have a: "\<forall>c \<in> set (dropWhile is_space s). is_space c"
    by (simp only: dropWhile_eq_Nil_conv set_rev)
  show "\<forall>c \<in> set s. is_space c"
  proof (cases "dropWhile is_space s")
    case Nil
    then show ?thesis by (simp only: dropWhile_eq_Nil_conv)
  next
    case (Cons x xs)
    then have "\<not> is_space x" using hd_dropWhile [of is_space s] by simp
    with a Cons show ?thesis by simp
  qed
next
  assume "\<forall>c \<in> set s. is_space c"
  then have d: "dropWhile is_space s = []" by (simp only: dropWhile_eq_Nil_conv)
  show "trim s = []" by (simp only: trim_def d rev.simps dropWhile.simps)
qed

lemma cleanTitle_empty_iff:
  "cleanTitle title = [] \<longleftrightarrow> (\<forall>c \<in> set title. \<not> is_word c \<and> c \<noteq> CHR ''-'')"
proof -
  let ?kept = "filter (\<lambda>c. is_word c \<or> is_space c \<or> c = CHR ''-'') title"
  have "cleanTitle title = take 50 (collapse_whitespace (trim ?kept))"
    by (simp add: cleanTitle_def replace_all_Chr_empty replace_all_plus_space
        not_word_space_hyphen_def)
  then have "cleanTitle title = [] \<longleftrightarrow> (\<forall>c \<in> set ?kept. is_space c)"
    by (simp add: collapse_whitespace_Nil_iff trim_Nil_iff)
  also have "\<dots> \<longleftrightarrow> (\<forall>c \<in> set title. \<not> is_word c \<and> c \<noteq> CHR ''-'')"
    using is_space_not_kept by auto
  finally show ?thesis .
qed

subsection \<open>C7: the derivation of the file name\<close>

text \<open>
  C7, as the code has it. For every title, the base of the output file name computed by
  the two regular expression replacements of the code is the derivation of the
  specification: the characters outside the word, space and hyphen classes are
  stripped, the result is trimmed, each maximal run of white space becomes one
  underscore, 50 characters are kept, and \<open>Presentation\<close> stands in for an empty
  result. The title \<open>Q3 Report: Growth & Risk!\<close> gives \<open>Q3_Report_Growth_Risk\<close> and the
  empty title gives \<open>Presentation\<close>. The cleaned title is empty exactly when the title
  has no word character (a letter, a digit or the underscore) and no hyphen, so a title
  of other punctuation and white space gives \<open>Presentation\<close>, and no title that holds a
  hyphen or an underscore is replaced by it.
\<close>

theorem fileBase_derivation:
  "fileBase title = derived_base title
   \<and> fileBase ''Q3 Report: Growth & Risk!'' = ''Q3_Report_Growth_Risk''
   \<and> fileBase [] = ''Presentation''
   \<and> ((\<forall>c \<in> set title. \<not> is_word c \<and> c \<noteq> CHR ''-'') \<longrightarrow> fileBase title = ''Presentation'')
   \<and> (cleanTitle title = [] \<longleftrightarrow> (\<forall>c \<in> set title. \<not> is_word c \<and> c \<noteq> CHR ''-''))
   \<and> (cleanTitle title \<noteq> [] \<longrightarrow> fileBase title = cleanTitle title)"
proof -
  have nonempty: "cleanTitle title \<noteq> [] \<longrightarrow> fileBase title = cleanTitle title"
    by (simp add: fileBase_def)
  have "fileBase ''Q3 Report: Growth & Risk!'' = ''Q3_Report_Growth_Risk''"
    unfolding fileBase_refines
    by (simp add: derived_base_def trim_def is_word_def is_space_def is_upper_def
        is_lower_def is_digit_def code_unit_def)
  moreover have "fileBase [] = ''Presentation''"
    unfolding fileBase_refines by (simp add: derived_base_def trim_def)
  ultimately show ?thesis
    using fileBase_refines derived_base_no_kept cleanTitle_empty_iff [of title] nonempty
    by simp
qed

theorem fileBase_derivation_witness:
  "fileBase ''?! (&) ...'' = ''Presentation''
   \<and> fileBase ''?! (&) ...'' = derived_base ''?! (&) ...''"
proof -
  have h: "\<forall>c \<in> set ''?! (&) ...''. \<not> is_word c \<and> c \<noteq> CHR ''-''"
    by (simp add: is_word_def is_upper_def is_lower_def is_digit_def code_unit_def)
  have a: "fileBase ''?! (&) ...'' = derived_base ''?! (&) ...''"
    using fileBase_derivation [of "''?! (&) ...''"] by (rule conjunct1)
  have "fileBase ''?! (&) ...'' = ''Presentation''"
    using fileBase_derivation [of "''?! (&) ...''"] h by blast
  with a show ?thesis by (simp only: simp_thms)
qed

text \<open>
  The claim as stated fails on a title made of punctuation that the character class
  keeps: the hyphen and the underscore are not stripped, so such a title is its own
  file name base and \<open>Presentation\<close> is not substituted.
\<close>

theorem hyphen_title_counterexample:
  "fileBase ''---'' = ''---'' \<and> fileBase ''_'' = ''_''"
  unfolding fileBase_refines
  by (simp add: derived_base_def trim_def is_word_def is_space_def is_upper_def
      is_lower_def is_digit_def code_unit_def)

section \<open>JavaScript values\<close>

text \<open>
  What \<open>JSON.parse\<close> returns is untyped: a value of JavaScript built from \<open>null\<close>,
  booleans, numbers, strings, arrays and objects. An object is the list of its own
  properties in insertion order; an array carries its elements and the properties that
  were assigned to it by name. A property that is missing reads as \<open>undefined\<close>, which
  is \<open>None\<close> here. Numbers are real numbers (the rounding of IEEE doubles is not
  modelled).
\<close>

datatype jsval =
    JNull
  | JBool bool
  | JNumber real
  | JString string
  | JArray "jsval list" "(string \<times> jsval) list"
  | JObject "(string \<times> jsval) list"

text \<open>An exception: an \<open>Error\<close> object with its \<open>message\<close>.\<close>

datatype js_error = Error string

fun message :: "js_error \<Rightarrow> string" where
  "message (Error m) = m"

text \<open>
  The JavaScript engine is a collaborator of the code: \<open>JSON.parse\<close>, and the
  \<open>TypeError\<close>s it raises when a property of \<open>null\<close> is read and when, in the strict
  mode of an ES module, a property is assigned on a primitive value. Their message texts
  are the engine's own.
\<close>

record js_engine =
  JSON_parse :: "string \<Rightarrow> js_error + jsval"
  read_of_null :: "string \<Rightarrow> js_error"
  create_on_primitive :: "string \<Rightarrow> jsval \<Rightarrow> js_error"

text \<open>Truthiness, \<open>v.p\<close> and \<open>v.p = w\<close>.\<close>

fun truthy :: "jsval \<Rightarrow> bool" where
  "truthy JNull = False"
| "truthy (JBool b) = b"
| "truthy (JNumber n) = (n \<noteq> 0)"
| "truthy (JString s) = (s \<noteq> [])"
| "truthy (JArray xs ps) = True"
| "truthy (JObject ps) = True"

definition truthy_opt :: "jsval option \<Rightarrow> bool" where
  "truthy_opt v = (case v of None \<Rightarrow> False | Some x \<Rightarrow> truthy x)"

fun get_prop :: "js_engine \<Rightarrow> jsval \<Rightarrow> string \<Rightarrow> js_error + jsval option" where
  "get_prop eng JNull p = Inl (read_of_null eng p)"
| "get_prop eng (JObject ps) p = Inr (map_of ps p)"
| "get_prop eng (JArray xs ps) p = Inr (map_of ps p)"
| "get_prop eng v p = Inr None"

fun set_prop :: "js_engine \<Rightarrow> jsval \<Rightarrow> string \<Rightarrow> jsval \<Rightarrow> js_error + jsval" where
  "set_prop eng (JObject ps) p v = Inr (JObject (AList.update p v ps))"
| "set_prop eng (JArray xs ps) p v = Inr (JArray xs (AList.update p v ps))"
| "set_prop eng w p v = Inl (create_on_primitive eng p w)"

section \<open>The outline normalizer\<close>

text \<open>
  The parsing half of \<open>generatePresentationStructure\<close>:
  \<^verbatim>\<open>
    const cleanedResponse = responseText.replace(/```json\n?|\n?```/g, '').trim();
    const jsonMatch = cleanedResponse.match(/\{[\s\S]*\}/);
    if (!jsonMatch) throw new Error('No JSON found in response');
    const structure = JSON.parse(jsonMatch[0]);
    if (!structure.title || !Array.isArray(structure.slides)) {
      throw new Error('Invalid structure');
    }
    if (structure.slides[0]) structure.slides[0].type = 'title';
    return structure;
  \<close>
  inside a \<open>try\<close> whose \<open>catch\<close> rethrows by the message of what it caught:
  \<^verbatim>\<open>
    const message = error.message || '';
    if (message.includes('API key')) throw new Error(`Invalid ${provider} API key`);
    if (message.includes('quota')) throw new Error('API quota exceeded');
    throw new Error(`Generation failed: ${message}`);
  \<close>
  The call of the provider is outside the model: its outcome, the response text or the
  exception it raised, is the argument \<open>response\<close>.
\<close>

definition fence_re :: regex where
  "fence_re = Alt (Seq (lit ''```json'') (Opt (Chr (is_char (CHR 0x0A)))))
                  (Seq (Opt (Chr (is_char (CHR 0x0A)))) (lit ''```''))"

definition json_re :: regex where
  "json_re = seqs [Chr (is_char CHR ''{''), Star any_char, Chr (is_char CHR ''}'')]"

datatype provider = Gemini | OpenAI

fun provider_name :: "provider \<Rightarrow> string" where
  "provider_name Gemini = ''gemini''"
| "provider_name OpenAI = ''openai''"

text \<open>\<open>if (structure.slides[0]) structure.slides[0].type = 'title'\<close> on the elements.\<close>

definition force_first_title :: "js_engine \<Rightarrow> jsval list \<Rightarrow> js_error + jsval list" where
  "force_first_title eng slides =
     (case slides of
        [] \<Rightarrow> Inr []
      | v # vs \<Rightarrow>
          if truthy v
          then (case set_prop eng v ''type'' (JString ''title'') of
                  Inl e \<Rightarrow> Inl e
                | Inr v' \<Rightarrow> Inr (v' # vs))
          else Inr (v # vs))"

definition cleanResponse :: "string \<Rightarrow> string" where
  "cleanResponse responseText = trim (js_replace_all fence_re [] responseText)"

definition jsonMatch :: "string \<Rightarrow> string option" where
  "jsonMatch cleanedResponse = map_option fst (js_match json_re cleanedResponse)"

text \<open>
  The validation and the assignment; the array that was changed in place is written
  back into the structure.
\<close>

definition validate_structure :: "js_engine \<Rightarrow> jsval \<Rightarrow> js_error + jsval" where
  "validate_structure eng structure =
     (case get_prop eng structure ''title'' of
        Inl e \<Rightarrow> Inl e
      | Inr title \<Rightarrow>
          if \<not> truthy_opt title then Inl (Error ''Invalid structure'')
          else (case get_prop eng structure ''slides'' of
                  Inl e \<Rightarrow> Inl e
                | Inr (Some (JArray xs ps)) \<Rightarrow>
                    (case force_first_title eng xs of
                       Inl e \<Rightarrow> Inl e
                     | Inr xs' \<Rightarrow> set_prop eng structure ''slides'' (JArray xs' ps))
                | Inr _ \<Rightarrow> Inl (Error ''Invalid structure'')))"

definition parseResponse :: "js_engine \<Rightarrow> string \<Rightarrow> js_error + jsval" where
  "parseResponse eng responseText =
     (case jsonMatch (cleanResponse responseText) of
        None \<Rightarrow> Inl (Error ''No JSON found in response'')
      | Some jsonText \<Rightarrow>
          (case JSON_parse eng jsonText of
             Inl e \<Rightarrow> Inl e
           | Inr structure \<Rightarrow> validate_structure eng structure))"

definition rethrow :: "provider \<Rightarrow> js_error \<Rightarrow> js_error" where
  "rethrow provider e =
     (if str_includes (message e) ''API key''
      then Error (''Invalid '' @ provider_name provider @ '' API key'')
      else if str_includes (message e) ''quota'' then Error ''API quota exceeded''
      else Error (''Generation failed: '' @ message e))"

definition generatePresentationStructure ::
  "js_engine \<Rightarrow> provider \<Rightarrow> js_error + string \<Rightarrow> js_error + jsval" where
  "generatePresentationStructure eng provider response =
     (case response of
        Inl e \<Rightarrow> Inl (rethrow provider e)
      | Inr responseText \<Rightarrow>
          (case parseResponse eng responseText of
             Inl e \<Rightarrow> Inl (rethrow provider e)
           | Inr structure \<Rightarrow> Inr structure))"

subsection \<open>A model of \<open>JSON.parse\<close>\<close>

text \<open>
  A parser for the JSON grammar (ECMA-404) as \<open>JSON.parse\<close> reads it, on texts whose
  string escapes denote code units below 256. It stands in for the engine's parser
  where a theorem is evaluated on a concrete text; the theorems themselves hold for
  every engine. A later duplicate of a key replaces the value at the key's first place.
\<close>

definition is_json_ws :: "char \<Rightarrow> bool" where
  "is_json_ws c = (code_unit c \<in> {9, 10, 13, 32})"

definition skip_ws :: "string \<Rightarrow> string" where
  "skip_ws s = dropWhile is_json_ws s"

definition digit_value :: "char \<Rightarrow> nat" where
  "digit_value c = code_unit c - 48"

definition digits_value :: "string \<Rightarrow> nat" where
  "digits_value ds = foldl (\<lambda>a c. 10 * a + digit_value c) 0 ds"

definition hex_value :: "char \<Rightarrow> nat option" where
  "hex_value c =
     (if is_digit c then Some (code_unit c - 48)
      else if 65 \<le> code_unit c \<and> code_unit c \<le> 70 then Some (code_unit c - 55)
      else if 97 \<le> code_unit c \<and> code_unit c \<le> 102 then Some (code_unit c - 87)
      else None)"

definition simple_escape :: "char \<Rightarrow> char option" where
  "simple_escape e =
     (if e = CHR 0x22 then Some (CHR 0x22)
      else if e = CHR 0x5C then Some (CHR 0x5C)
      else if e = CHR ''/'' then Some (CHR ''/'')
      else if e = CHR ''b'' then Some (CHR 0x08)
      else if e = CHR ''f'' then Some (CHR 0x0C)
      else if e = CHR ''n'' then Some (CHR 0x0A)
      else if e = CHR ''r'' then Some (CHR 0x0D)
      else if e = CHR ''t'' then Some (CHR 0x09)
      else None)"

definition unicode_escape :: "char \<Rightarrow> char \<Rightarrow> char \<Rightarrow> char \<Rightarrow> char option" where
  "unicode_escape a b c d =
     (case (hex_value a, hex_value b, hex_value c, hex_value d) of
        (Some h3, Some h2, Some h1, Some h0) \<Rightarrow>
          if h3 = 0 \<and> h2 = 0 then Some (char_of (16 * h1 + h0)) else None
      | _ \<Rightarrow> None)"

fun parse_string :: "string \<Rightarrow> string \<Rightarrow> (string \<times> string) option" where
  "parse_string [] acc = None"
| "parse_string (c # cs) acc =
     (if c = CHR 0x22 then Some (rev acc, cs)
      else if c = CHR 0x5C then
        (case cs of
           [] \<Rightarrow> None
         | e # es \<Rightarrow>
             if e = CHR ''u'' then
               (case es of
                  a # b # c' # d # rest \<Rightarrow>
                    (case unicode_escape a b c' d of
                       Some ch \<Rightarrow> parse_string rest (ch # acc)
                     | None \<Rightarrow> None)
                | _ \<Rightarrow> None)
             else (case simple_escape e of
                     Some ch \<Rightarrow> parse_string es (ch # acc)
                   | None \<Rightarrow> None))
      else if code_unit c < 32 then None
      else parse_string cs (c # acc))"

lemma parse_string_shorter: "parse_string s acc = Some (str, rest) \<Longrightarrow> length rest < length s"
proof (induction s acc rule: parse_string.induct)
  case (1 acc)
  then show ?case by simp
next
  case (2 c cs acc)
  show ?case
  proof (cases "c = CHR 0x22")
    case True
    with "2.prems" show ?thesis by simp
  next
    case nq: False
    show ?thesis
    proof (cases "c = CHR 0x5C")
      case bs: True
      show ?thesis
      proof (cases cs)
        case Nil
        with "2.prems" nq bs show ?thesis by simp
      next
        case (Cons e es)
        show ?thesis
        proof (cases "e = CHR ''u''")
          case u: True
          from "2.prems" nq bs Cons u obtain a b c' d r ch where
            es: "es = a # b # c' # d # r" and ue: "unicode_escape a b c' d = Some ch"
            and rec: "parse_string r (ch # acc) = Some (str, rest)"
            by (auto split: list.splits option.splits)
          from "2.IH"(1) [OF nq bs Cons u es refl refl refl ue rec]
          show ?thesis using Cons es by simp
        next
          case nu: False
          from "2.prems" nq bs Cons nu obtain ch where
            se: "simple_escape e = Some ch"
            and rec: "parse_string es (ch # acc) = Some (str, rest)"
            by (auto split: option.splits)
          from "2.IH"(2) [OF nq bs Cons nu se rec]
          show ?thesis using Cons by simp
        qed
      qed
    next
      case nbs: False
      with "2.prems" nq have lo: "\<not> code_unit c < 32"
        and rec: "parse_string cs (c # acc) = Some (str, rest)"
        by (auto split: if_splits)
      from "2.IH"(3) [OF nq nbs lo rec] show ?thesis by simp
    qed
  qed
qed

definition parse_fraction :: "string \<Rightarrow> (string \<times> string) option" where
  "parse_fraction s =
     (case s of
        [] \<Rightarrow> Some ([], [])
      | c # t \<Rightarrow>
          if c = CHR ''.'' then
            (if takeWhile is_digit t = [] then None
             else Some (takeWhile is_digit t, dropWhile is_digit t))
          else Some ([], s))"

definition parse_exponent :: "string \<Rightarrow> (int \<times> string) option" where
  "parse_exponent s =
     (case s of
        [] \<Rightarrow> Some (0, [])
      | c # t \<Rightarrow>
          if c = CHR ''e'' \<or> c = CHR ''E'' then
            (let (neg, t') =
               (case t of
                  [] \<Rightarrow> (False, t)
                | d # u \<Rightarrow> if d = CHR ''-'' then (True, u) else if d = CHR ''+'' then (False, u) else (False, t))
             in if takeWhile is_digit t' = [] then None
                else Some ((if neg then - 1 else 1) * int (digits_value (takeWhile is_digit t')),
                           dropWhile is_digit t'))
          else Some (0, s))"

definition pow10 :: "int \<Rightarrow> real" where
  "pow10 e = (if 0 \<le> e then 10 ^ nat e else 1 / 10 ^ nat (- e))"

definition parse_number :: "string \<Rightarrow> (real \<times> string) option" where
  "parse_number s =
     (let (neg, s1) =
        (case s of [] \<Rightarrow> (False, s) | c # t \<Rightarrow> if c = CHR ''-'' then (True, t) else (False, s));
          ip = takeWhile is_digit s1
      in if ip = [] \<or> (1 < length ip \<and> hd ip = CHR ''0'') then None
         else
           (case parse_fraction (dropWhile is_digit s1) of
              None \<Rightarrow> None
            | Some (fd, s3) \<Rightarrow>
                (case parse_exponent s3 of
                   None \<Rightarrow> None
                 | Some (ex, s4) \<Rightarrow>
                     Some ((if neg then - 1 else 1)
                           * (real (digits_value ip) + real (digits_value fd) / 10 ^ length fd)
                           * pow10 ex, s4))))"

lemma skip_ws_Cons_shorter: "skip_ws s = c # t \<Longrightarrow> length t < length s"
proof -
  assume a: "skip_ws s = c # t"
  have "length (skip_ws s) \<le> length s" unfolding skip_ws_def by (rule length_dropWhile_le)
  with a show ?thesis by simp
qed

function parse_value :: "string \<Rightarrow> (jsval \<times> string) option"
  and parse_elements :: "string \<Rightarrow> jsval list \<Rightarrow> (jsval \<times> string) option"
  and parse_members :: "string \<Rightarrow> (string \<times> jsval) list \<Rightarrow> (jsval \<times> string) option"
where
  "parse_value s =
     (case skip_ws s of
        [] \<Rightarrow> None
      | c # t \<Rightarrow>
          if c = CHR ''{'' then
            (case skip_ws t of
               [] \<Rightarrow> None
             | d # u \<Rightarrow> if d = CHR ''}'' then Some (JObject [], u) else parse_members (d # u) [])
          else if c = CHR ''['' then
            (case skip_ws t of
               [] \<Rightarrow> None
             | d # u \<Rightarrow> if d = CHR '']'' then Some (JArray [] [], u) else parse_elements (d # u) [])
          else if c = CHR 0x22 then map_option (\<lambda>(str, u). (JString str, u)) (parse_string t [])
          else if startsWith (c # t) ''true'' then Some (JBool True, drop 4 (c # t))
          else if startsWith (c # t) ''false'' then Some (JBool False, drop 5 (c # t))
          else if startsWith (c # t) ''null'' then Some (JNull, drop 4 (c # t))
          else map_option (\<lambda>(n, u). (JNumber n, u)) (parse_number (c # t)))"
| "parse_elements s acc =
     (case parse_value s of
        None \<Rightarrow> None
      | Some (v, rest) \<Rightarrow>
          if length rest < length s then
            (case skip_ws rest of
               [] \<Rightarrow> None
             | c # u \<Rightarrow>
                 if c = CHR '','' then parse_elements u (acc @ [v])
                 else if c = CHR '']'' then Some (JArray (acc @ [v]) [], u)
                 else None)
          else None)"
| "parse_members s acc =
     (case skip_ws s of
        [] \<Rightarrow> None
      | q # t \<Rightarrow>
          if q = CHR 0x22 then
            (case parse_string t [] of
               None \<Rightarrow> None
             | Some (key, rest) \<Rightarrow>
                 (case skip_ws rest of
                    [] \<Rightarrow> None
                  | c # u \<Rightarrow>
                      if c = CHR '':'' then
                        (case parse_value u of
                           None \<Rightarrow> None
                         | Some (v, rest') \<Rightarrow>
                             if length rest' < length u then
                               (case skip_ws rest' of
                                  [] \<Rightarrow> None
                                | d # w \<Rightarrow>
                                    if d = CHR '','' then parse_members w (AList.update key v acc)
                                    else if d = CHR ''}''
                                    then Some (JObject (AList.update key v acc), w)
                                    else None)
                             else None)
                      else None))
          else None)"
  by pat_completeness auto
termination
proof (relation "measure (\<lambda>x. case x of
          Inl s \<Rightarrow> 2 * length s
        | Inr (Inl (s, acc)) \<Rightarrow> 2 * length s + 1
        | Inr (Inr (s, acc)) \<Rightarrow> 2 * length s + 1)", goal_cases)
  case 1
  show ?case by simp
next
  case (2 s c t d u)
  then show ?case using skip_ws_Cons_shorter [of s c t] skip_ws_Cons_shorter [of t d u] by simp
next
  case (3 s c t d u)
  then show ?case using skip_ws_Cons_shorter [of s c t] skip_ws_Cons_shorter [of t d u] by simp
next
  case (4 s acc)
  show ?case by simp
next
  case (5 s acc x2 v rest c u)
  then show ?case using skip_ws_Cons_shorter [of rest c u] by simp
next
  case (6 s acc q t x2 key rest c u)
  then show ?case
    using skip_ws_Cons_shorter [of s q t] skip_ws_Cons_shorter [of rest c u]
      parse_string_shorter [of t "[]" key rest] by simp
next
  case (7 s acc q t x2 key rest c u x2a v rest' d w)
  then show ?case
    using skip_ws_Cons_shorter [of s q t] skip_ws_Cons_shorter [of rest c u]
      skip_ws_Cons_shorter [of rest' d w]
      parse_string_shorter [of t "[]" key rest] by simp
qed

declare parse_value.simps [simp del] parse_elements.simps [simp del] parse_members.simps [simp del]

definition JSON_parse_model :: "string \<Rightarrow> js_error + jsval" where
  "JSON_parse_model text =
     (case parse_value text of
        None \<Rightarrow> Inl (Error ''Unexpected token in JSON'')
      | Some (v, rest) \<Rightarrow>
          if skip_ws rest = [] then Inr v else Inl (Error ''Unexpected token in JSON''))"

text \<open>
  An engine for concrete evaluation: the parser above and fixed message texts.
\<close>

definition model_engine :: js_engine where
  "model_engine =
     \<lparr>JSON_parse = JSON_parse_model,
      read_of_null = (\<lambda>p. Error (''Cannot read properties of null, reading '' @ p)),
      create_on_primitive = (\<lambda>p v. Error (''Cannot create property '' @ p @ '' on a primitive value''))\<rparr>"

lemmas json_eval = JSON_parse_model_def parse_value.simps parse_elements.simps
  parse_members.simps skip_ws_def is_json_ws_def code_unit_def parse_number_def
  parse_fraction_def parse_exponent_def pow10_def digits_value_def digit_value_def
  is_digit_def simple_escape_def unicode_escape_def hex_value_def

lemmas normalizer_eval = generatePresentationStructure_def parseResponse_def
  cleanResponse_def jsonMatch_def validate_structure_def force_first_title_def rethrow_def
  truthy_opt_def model_engine_def trim_def is_space_def code_unit_def js_replace_all.simps
  match_here_def fence_re_def json_re_def

section \<open>The deck\<close>

text \<open>
  The interfaces \<open>SlideContent\<close> and \<open>PresentationStructure\<close>, and the reading of a
  parsed value at that declared type (\<open>None\<close> when the value does not have it).
\<close>

record SlideContent =
  slide_title :: string
  slide_content :: "string list"
  slide_type :: string
  slide_notes :: "string option"

record PresentationStructure =
  pres_title :: string
  pres_slides :: "SlideContent list"

fun as_string :: "jsval \<Rightarrow> string option" where
  "as_string (JString s) = Some s"
| "as_string v = None"

fun as_SlideContent :: "jsval \<Rightarrow> SlideContent option" where
  "as_SlideContent (JObject ps) =
     (case (map_of ps ''title'', map_of ps ''content'', map_of ps ''type'') of
        (Some (JString t), Some (JArray xs qs), Some (JString ty)) \<Rightarrow>
          (case those (map as_string xs) of
             Some cs \<Rightarrow>
               Some \<lparr>slide_title = t, slide_content = cs, slide_type = ty,
                     slide_notes = (case map_of ps ''notes'' of
                                      Some (JString n) \<Rightarrow> Some n | _ \<Rightarrow> None)\<rparr>
           | None \<Rightarrow> None)
      | _ \<Rightarrow> None)"
| "as_SlideContent v = None"

fun as_PresentationStructure :: "jsval \<Rightarrow> PresentationStructure option" where
  "as_PresentationStructure (JObject ps) =
     (case (map_of ps ''title'', map_of ps ''slides'') of
        (Some (JString t), Some (JArray xs qs)) \<Rightarrow>
          (case those (map as_SlideContent xs) of
             Some ss \<Rightarrow> Some \<lparr>pres_title = t, pres_slides = ss\<rparr>
           | None \<Rightarrow> None)
      | _ \<Rightarrow> None)"
| "as_PresentationStructure v = None"

text \<open>
  What \<open>createPresentationWithTemplate\<close> hands to the presentation library: per slide
  the \<open>addText\<close> calls with their options and the background, and the file name given
  to \<open>writeFile\<close>. The library itself is outside the model.
\<close>

record text_directive =
  dir_text :: string
  dir_x :: real
  dir_y :: real
  dir_w :: real
  dir_h :: real
  dir_fontSize :: nat
  dir_bold :: bool
  dir_color :: string
  dir_fontFace :: string
  dir_align :: "string option"
  dir_valign :: "string option"

record slide_directive =
  slide_texts :: "text_directive list"
  slide_background :: "string option"

record deck =
  deck_layout :: "(real \<times> real) option"
  deck_slides :: "slide_directive list"
  deck_fileName :: string

text \<open>\<open>layout.titleBox?.x || d\<close>: the default also replaces a zero.\<close>

definition num_or :: "real \<Rightarrow> real \<Rightarrow> real" where
  "num_or v d = (if v = 0 then d else v)"

definition box_or :: "box option \<Rightarrow> (box \<Rightarrow> real) \<Rightarrow> real \<Rightarrow> real" where
  "box_or b f d = (case b of None \<Rightarrow> d | Some bx \<Rightarrow> num_or (f bx) d)"

fun join :: "string \<Rightarrow> string list \<Rightarrow> string" where
  "join sep [] = []"
| "join sep [x] = x"
| "join sep (x # xs) = x @ sep @ join sep xs"

text \<open>
  The body of the \<open>forEach\<close> for the slide at \<open>index\<close>. The bullet mark of the template
  literal lies outside Latin-1 and is the parameter \<open>bullet\<close>.
\<close>

definition make_slide ::
  "string \<Rightarrow> ColorScheme \<Rightarrow> FontScheme \<Rightarrow> layout list \<Rightarrow> nat \<Rightarrow> SlideContent \<Rightarrow> slide_directive" where
  "make_slide bullet colors fonts layouts index slideData =
     (let layout = chooseLayout layouts (slide_type slideData);
          texts =
            (if slide_type slideData = ''title'' \<or> index = 0 then
               [\<lparr>dir_text = slide_title slideData,
                 dir_x = box_or (titleBox layout) box_x 1,
                 dir_y = box_or (titleBox layout) box_y 2.5,
                 dir_w = box_or (titleBox layout) box_w 8,
                 dir_h = box_or (titleBox layout) box_h 1.5,
                 dir_fontSize = 36, dir_bold = True, dir_color = color_primary colors,
                 dir_fontFace = font_title fonts, dir_align = Some ''center'',
                 dir_valign = None\<rparr>]
               @ (if slide_content slideData \<noteq> [] then
                    [\<lparr>dir_text = join '' '' (slide_content slideData),
                      dir_x = box_or (contentBox layout) box_x 1,
                      dir_y = box_or (titleBox layout) box_y 2.5
                              + box_or (titleBox layout) box_h 1.5 + 0.5,
                      dir_w = box_or (contentBox layout) box_w 8,
                      dir_h = 1,
                      dir_fontSize = 18, dir_bold = False, dir_color = color_text colors,
                      dir_fontFace = font_body fonts, dir_align = Some ''center'',
                      dir_valign = None\<rparr>]
                  else [])
             else
               [\<lparr>dir_text = slide_title slideData,
                 dir_x = box_or (titleBox layout) box_x 0.5,
                 dir_y = box_or (titleBox layout) box_y 0.5,
                 dir_w = box_or (titleBox layout) box_w 9,
                 dir_h = box_or (titleBox layout) box_h 1.2,
                 dir_fontSize = 28, dir_bold = True, dir_color = color_primary colors,
                 dir_fontFace = font_title fonts, dir_align = None, dir_valign = None\<rparr>,
                \<lparr>dir_text =
                   (if slide_type slideData = ''bullets''
                    then join [CHR 0x0A] (map (\<lambda>item. bullet @ '' '' @ item) (slide_content slideData))
                    else join [CHR 0x0A, CHR 0x0A] (slide_content slideData)),
                 dir_x = box_or (contentBox layout) box_x 0.5,
                 dir_y = box_or (contentBox layout) box_y 2,
                 dir_w = box_or (contentBox layout) box_w 9,
                 dir_h = box_or (contentBox layout) box_h 4.5,
                 dir_fontSize = 16, dir_bold = False, dir_color = color_text colors,
                 dir_fontFace = font_body fonts, dir_align = None,
                 dir_valign = Some ''top''\<rparr>])
      in \<lparr>slide_texts = texts,
          slide_background =
            (if color_background colors \<noteq> [] \<and> color_background colors \<noteq> ''#ffffff''
             then Some (color_background colors) else None)\<rparr>)"

definition createPresentationWithTemplate ::
  "string \<Rightarrow> PresentationStructure \<Rightarrow> TemplateData option \<Rightarrow> deck" where
  "createPresentationWithTemplate bullet structure templateData =
     (let colors = (case templateData of Some td \<Rightarrow> td_colors td | None \<Rightarrow> default_colors);
          fonts = (case templateData of Some td \<Rightarrow> td_fonts td | None \<Rightarrow> default_fonts);
          layouts = (case templateData of Some td \<Rightarrow> td_layouts td | None \<Rightarrow> [])
      in \<lparr>deck_layout = (case templateData of Some td \<Rightarrow> td_slideSize td | None \<Rightarrow> None),
          deck_slides =
            map (\<lambda>(index, slideData). make_slide bullet colors fonts layouts index slideData)
              (enumerate 0 (pres_slides structure)),
          deck_fileName = fileName (pres_title structure)\<rparr>)"

section \<open>Properties of the outline normalizer\<close>

subsection \<open>The span of \<open>/\{[\s\S]*\}/\<close>\<close>

lemma rmatch_lit:
  "rmatch (lit p) s g k = (if startsWith s p then k (drop (length p) s) g else None)"
proof (induction p arbitrary: s rule: lit.induct)
  case 1
  show ?case by simp
next
  case (2 c)
  show ?case by (cases s) auto
next
  case (3 c v va)
  show ?case using 3 by (cases s) auto
qed

text \<open>
  What follows the star in \<open>/\{[\s\S]*\}/\<close>: the closing brace, then the end of the
  match, \<open>n\<close> being the length of the text the match started at.
\<close>

definition close_k :: "nat \<Rightarrow> string \<Rightarrow> (nat \<times> captures) option" where
  "close_k n =
     (\<lambda>s'. case s' of [] \<Rightarrow> None
      | c # u \<Rightarrow> if c = CHR ''}'' then Some (n - length u, Map.empty) else None)"

lemma match_here_json_re:
  "match_here json_re s =
     (case s of [] \<Rightarrow> None
      | c # t \<Rightarrow> if c = CHR ''{'' then star_greedy any_char t (close_k (length s)) else None)"
proof (cases s)
  case Nil
  then show ?thesis by (simp add: match_here_def json_re_def)
next
  case (Cons c t)
  then show ?thesis
    by (simp add: match_here_def json_re_def close_k_def)
qed

lemma star_any_no_close:
  assumes "K [] = None" and "\<And>c u. c \<noteq> CHR ''}'' \<Longrightarrow> K (c # u) = None"
    and "CHR ''}'' \<notin> set t"
  shows "star_greedy any_char t K = None"
  using assms(3)
proof (induction t)
  case Nil
  show ?case using assms(1) by simp
next
  case (Cons c cs)
  then have "c \<noteq> CHR ''}''" by auto
  then have "K (c # cs) = None" by (rule assms(2))
  with Cons show ?case by simp
qed

lemma star_any_last_close:
  assumes "K [] = None" and "\<And>c u. c \<noteq> CHR ''}'' \<Longrightarrow> K (c # u) = None"
    and "CHR ''}'' \<notin> set post"
    and "K (CHR ''}'' # post) = Some r"
  shows "star_greedy any_char (mid @ CHR ''}'' # post) K = Some r"
proof (induction mid)
  case Nil
  have "star_greedy any_char post K = None"
    using assms(1,2,3) by (rule star_any_no_close)
  with assms(4) show ?case by simp
next
  case (Cons m ms)
  then show ?case by simp
qed

lemma match_here_json_re_span:
  assumes "CHR ''}'' \<notin> set post"
  shows "match_here json_re (CHR ''{'' # mid @ CHR ''}'' # post)
         = Some (Suc (Suc (length mid)), Map.empty)"
proof -
  let ?n = "length (CHR ''{'' # mid @ CHR ''}'' # post)"
  have "star_greedy any_char (mid @ CHR ''}'' # post) (close_k ?n)
        = Some (Suc (Suc (length mid)), Map.empty)"
    by (rule star_any_last_close [OF _ _ assms]) (simp_all add: close_k_def)
  then show ?thesis
    by (simp add: match_here_json_re)
qed

lemma match_here_json_re_none:
  assumes "s = [] \<or> hd s \<noteq> CHR ''{'' \<or> CHR ''}'' \<notin> set (tl s)"
  shows "match_here json_re s = None"
proof (cases s)
  case Nil
  then show ?thesis by (simp add: match_here_json_re)
next
  case (Cons c t)
  show ?thesis
  proof (cases "c = CHR ''{''")
    case True
    with assms Cons have nc: "CHR ''}'' \<notin> set t" by simp
    have "star_greedy any_char t (close_k (length s)) = None"
      by (rule star_any_no_close [OF _ _ nc]) (simp_all add: close_k_def)
    then show ?thesis
      using Cons True by (simp add: match_here_json_re)
  next
    case False
    then show ?thesis using Cons by (simp add: match_here_json_re)
  qed
qed

lemma js_match_json_re_span:
  assumes "CHR ''{'' \<notin> set pre" and "CHR ''}'' \<notin> set post"
  shows "js_match json_re (pre @ CHR ''{'' # mid @ CHR ''}'' # post)
         = Some (CHR ''{'' # mid @ [CHR ''}''], Map.empty)"
  using assms(1)
proof (induction pre)
  case Nil
  show ?case by (simp add: match_here_json_re_span [OF assms(2)])
next
  case (Cons p ps)
  then have "match_here json_re ((p # ps) @ CHR ''{'' # mid @ CHR ''}'' # post) = None"
    by (intro match_here_json_re_none) auto
  with Cons show ?case by simp
qed

lemma js_match_json_re_none:
  assumes "\<not> (\<exists>a b c. s = a @ CHR ''{'' # b @ CHR ''}'' # c)"
  shows "js_match json_re s = None"
  using assms
proof (induction s)
  case Nil
  show ?case by (simp add: match_here_json_re_none)
next
  case (Cons x xs)
  have tail: "\<not> (\<exists>a b c. xs = a @ CHR ''{'' # b @ CHR ''}'' # c)"
  proof
    assume "\<exists>a b c. xs = a @ CHR ''{'' # b @ CHR ''}'' # c"
    then obtain a b c where "xs = a @ CHR ''{'' # b @ CHR ''}'' # c" by blast
    then have "x # xs = (x # a) @ CHR ''{'' # b @ CHR ''}'' # c" by simp
    with Cons.prems show False by blast
  qed
  have "x \<noteq> CHR ''{'' \<or> CHR ''}'' \<notin> set xs"
  proof (rule ccontr)
    assume "\<not> (x \<noteq> CHR ''{'' \<or> CHR ''}'' \<notin> set xs)"
    then have x: "x = CHR ''{''" and "CHR ''}'' \<in> set xs" by auto
    then obtain b c where "xs = b @ CHR ''}'' # c" by (auto dest: split_list)
    with x have "x # xs = [] @ CHR ''{'' # b @ CHR ''}'' # c" by simp
    with Cons.prems show False by blast
  qed
  then have "match_here json_re (x # xs) = None"
    by (intro match_here_json_re_none) auto
  with Cons.IH [OF tail] show ?case by simp
qed

subsection \<open>The code fences\<close>

text \<open>
  What \<open>/```json\n?|\n?```/\<close> matches at the head of a text, as the number of
  characters.
\<close>

definition fence_len :: "string \<Rightarrow> nat option" where
  "fence_len s =
     (if startsWith s ''```json'' then (if startsWith (drop 7 s) [CHR 0x0A] then Some 8 else Some 7)
      else if startsWith s (CHR 0x0A # ''```'') then Some 4
      else if startsWith s ''```'' then Some 3
      else None)"

lemma startsWith_length: "startsWith s p \<Longrightarrow> length p \<le> length s"
  by (induction s p rule: startsWith.induct) auto

lemma match_here_fence_re:
  "match_here fence_re s = map_option (\<lambda>n. (n, Map.empty)) (fence_len s)"
proof -
  consider
      (A) "startsWith s ''```json''"
    | (B) "\<not> startsWith s ''```json''" "startsWith s (CHR 0x0A # ''```'')"
    | (C) "\<not> startsWith s ''```json''" "\<not> startsWith s (CHR 0x0A # ''```'')"
          "startsWith s ''```''"
    | (D) "\<not> startsWith s ''```json''" "\<not> startsWith s (CHR 0x0A # ''```'')"
          "\<not> startsWith s ''```''"
    by blast
  then show ?thesis
  proof cases
    case A
    then obtain t where s: "s = ''```json'' @ t" by (auto simp: startsWith_iff)
    show ?thesis
    proof (cases t)
      case Nil
      with s show ?thesis
        by (simp add: match_here_def fence_re_def fence_len_def)
    next
      case (Cons c u)
      with s show ?thesis
        by (simp add: match_here_def fence_re_def fence_len_def)
    qed
  next
    case B
    then obtain t where s: "s = CHR 0x0A # ''```'' @ t" by (auto simp: startsWith_iff)
    then show ?thesis
      by (simp add: match_here_def fence_re_def fence_len_def)
  next
    case C
    then obtain t where s: "s = ''```'' @ t" by (auto simp: startsWith_iff)
    with C(1) have nj: "\<not> startsWith t ''json''" by simp
    show ?thesis
      using s nj
      by (simp del: lit.simps add: rmatch_lit match_here_def fence_re_def fence_len_def)
  next
    case D
    show ?thesis
    proof (cases s)
      case Nil
      then show ?thesis by (simp add: match_here_def fence_re_def fence_len_def)
    next
      case (Cons c cs)
      with D(2) have "c = CHR 0x0A \<Longrightarrow> \<not> startsWith cs ''```''" by simp
      then show ?thesis
        using D Cons
        by (auto simp del: lit.simps simp add: rmatch_lit match_here_def fence_re_def fence_len_def)
    qed
  qed
qed

lemma fence_len_bounds: "fence_len s = Some n \<Longrightarrow> 0 < n \<and> n \<le> length s"
  unfolding fence_len_def
  by (auto split: if_splits dest!: startsWith_length)

lemma strip_fences_unfold:
  "js_replace_all fence_re [] s =
     (case fence_len s of
        Some n \<Rightarrow> js_replace_all fence_re [] (drop n s)
      | None \<Rightarrow> (case s of [] \<Rightarrow> [] | c # cs \<Rightarrow> c # js_replace_all fence_re [] cs))"
proof (cases "fence_len s")
  case None
  then show ?thesis
    by (subst js_replace_all.simps) (simp add: match_here_fence_re)
next
  case (Some n)
  then have "n \<noteq> 0" using fence_len_bounds by blast
  with Some show ?thesis
    by (subst js_replace_all.simps) (simp add: match_here_fence_re)
qed

lemma startsWith_append_nl:
  "CHR 0x0A \<notin> set p \<Longrightarrow> startsWith (j @ CHR 0x0A # t) p = startsWith j p"
  by (induction j p rule: startsWith.induct) auto

lemma fence_len_append:
  assumes "j \<noteq> []" and "j \<noteq> ''```json''"
  shows "fence_len (j @ CHR 0x0A # ''```'') = fence_len j"
proof -
  obtain c cs where j: "j = c # cs" using assms(1) by (cases j) auto
  have a: "startsWith (j @ CHR 0x0A # ''```'') ''```json'' = startsWith j ''```json''"
    by (rule startsWith_append_nl) simp
  have b: "startsWith (j @ CHR 0x0A # ''```'') ''```'' = startsWith j ''```''"
    by (rule startsWith_append_nl) simp
  have c: "startsWith (j @ CHR 0x0A # ''```'') (CHR 0x0A # ''```'')
           = startsWith j (CHR 0x0A # ''```'')"
    using startsWith_append_nl [of "''```''" cs "''```''"] by (simp add: j)
  have d: "startsWith (drop 7 (j @ CHR 0x0A # ''```'')) [CHR 0x0A]
           = startsWith (drop 7 j) [CHR 0x0A]" if "startsWith j ''```json''"
  proof -
    from that obtain t where t: "j = ''```json'' @ t" by (auto simp: startsWith_iff)
    with assms(2) have "t \<noteq> []" by auto
    then obtain x xs where "t = x # xs" by (cases t) auto
    with t show ?thesis by simp
  qed
  show ?thesis
    unfolding fence_len_def a b c using d by simp
qed

lemma strip_fences_skip:
  "fence_len (c # cs) = None \<Longrightarrow>
   js_replace_all fence_re [] (c # cs) = c # js_replace_all fence_re [] cs"
  by (subst strip_fences_unfold) simp

lemma strip_fences_drop:
  "fence_len s = Some n \<Longrightarrow> js_replace_all fence_re [] s = js_replace_all fence_re [] (drop n s)"
  by (subst strip_fences_unfold) simp

lemma strip_fences_Nil: "js_replace_all fence_re [] [] = []"
  by (subst strip_fences_unfold) (simp add: fence_len_def)

lemma strip_fences_closing:
  "js_replace_all fence_re [] (j @ CHR 0x0A # ''```'') = js_replace_all fence_re [] j"
proof (induction "length j" arbitrary: j rule: less_induct)
  case less
  let ?R = "js_replace_all fence_re []"
  let ?suf = "CHR 0x0A # ''```''"
  show ?case
  proof (cases "j = [] \<or> j = ''```json''")
    case True
    then show ?thesis
    proof
      assume j: "j = []"
      have "fence_len ?suf = Some 4" by (simp add: fence_len_def)
      from strip_fences_drop [OF this] show ?thesis
        by (simp add: j strip_fences_Nil)
    next
      assume j: "j = ''```json''"
      have "fence_len (''```json'' @ ?suf) = Some 8" by (simp add: fence_len_def)
      from strip_fences_drop [OF this] have a: "?R (''```json'' @ ?suf) = ?R ''```''"
        by simp
      have "fence_len ''```'' = Some 3" by (simp add: fence_len_def)
      from strip_fences_drop [OF this] have b: "?R ''```'' = []"
        by (simp add: strip_fences_Nil)
      have "fence_len ''```json'' = Some 7" by (simp add: fence_len_def)
      from strip_fences_drop [OF this] have c: "?R ''```json'' = []"
        by (simp add: strip_fences_Nil)
      show ?thesis unfolding j a b c ..
    qed
  next
    case False
    then have fl: "fence_len (j @ ?suf) = fence_len j"
      by (simp add: fence_len_append)
    from False obtain c cs where j: "j = c # cs" by (cases j) auto
    show ?thesis
    proof (cases "fence_len j")
      case None
      have ih: "?R (cs @ ?suf) = ?R cs"
        by (rule less) (simp add: j)
      have "fence_len (c # cs @ ?suf) = None" using fl None j by simp
      then have "?R (c # cs @ ?suf) = c # ?R (cs @ ?suf)" by (rule strip_fences_skip)
      moreover have "?R (c # cs) = c # ?R cs" using None j by (intro strip_fences_skip) simp
      ultimately show ?thesis using ih j by simp
    next
      case (Some n)
      then have n: "0 < n" "n \<le> length j" using fence_len_bounds by blast+
      then have ih: "?R (drop n j @ ?suf) = ?R (drop n j)"
        by (intro less) (simp add: j)
      have "?R (j @ ?suf) = ?R (drop n (j @ ?suf))"
        using fl Some by (intro strip_fences_drop) simp
      moreover have "drop n (j @ ?suf) = drop n j @ ?suf" using n by simp
      moreover have "?R j = ?R (drop n j)" using Some by (rule strip_fences_drop)
      ultimately show ?thesis using ih by simp
    qed
  qed
qed

lemma strip_fences_wrapped:
  "js_replace_all fence_re [] (''```json'' @ CHR 0x0A # j @ CHR 0x0A # ''```'')
   = js_replace_all fence_re [] j"
proof -
  have "fence_len (''```json'' @ CHR 0x0A # j @ CHR 0x0A # ''```'') = Some 8"
    by (simp add: fence_len_def)
  from strip_fences_drop [OF this]
  have "js_replace_all fence_re [] (''```json'' @ CHR 0x0A # j @ CHR 0x0A # ''```'')
             = js_replace_all fence_re [] (j @ CHR 0x0A # ''```'')"
    by simp
  then show ?thesis by (simp only: strip_fences_closing)
qed

subsection \<open>C8: a response without a JSON object\<close>

text \<open>
  C8. When the response text, after the code fences are stripped and the text is
  trimmed, holds no \<open>{\<close> followed later by a \<open>}\<close>, the normalizer raises the error
  \<open>Generation failed: No JSON found in response\<close> (the \<open>MalformedOutline\<close> condition)
  and returns no outline, whatever the engine and the provider.
\<close>

theorem no_json_raises:
  assumes "\<not> (\<exists>a b c. cleanResponse raw = a @ CHR ''{'' # b @ CHR ''}'' # c)"
  shows "generatePresentationStructure eng provider (Inr raw)
         = Inl (Error ''Generation failed: No JSON found in response'')"
proof -
  have "jsonMatch (cleanResponse raw) = None"
    using js_match_json_re_none [OF assms] by (simp add: jsonMatch_def)
  then show ?thesis
    by (simp add: generatePresentationStructure_def parseResponse_def rethrow_def)
qed

theorem no_json_raises_witness:
  "generatePresentationStructure model_engine Gemini (Inr ''Sorry, I cannot do that.'')
   = Inl (Error ''Generation failed: No JSON found in response'')"
proof -
  have c: "cleanResponse ''Sorry, I cannot do that.'' = ''Sorry, I cannot do that.''"
    by (simp add: normalizer_eval)
  have "\<not> (\<exists>a b c. cleanResponse ''Sorry, I cannot do that.'' = a @ CHR ''{'' # b @ CHR ''}'' # c)"
  proof
    assume "\<exists>a b c. cleanResponse ''Sorry, I cannot do that.'' = a @ CHR ''{'' # b @ CHR ''}'' # c"
    then obtain a b c where "''Sorry, I cannot do that.'' = a @ CHR ''{'' # b @ CHR ''}'' # c"
      unfolding c by blast
    then have "set ''Sorry, I cannot do that.'' = set (a @ CHR ''{'' # b @ CHR ''}'' # c)"
      by (rule arg_cong)
    then have "CHR ''{'' \<in> set ''Sorry, I cannot do that.''"
      by (simp only: set_append list.set) blast
    then show False by simp
  qed
  then show ?thesis by (rule no_json_raises)
qed

subsection \<open>C5: which substring is parsed\<close>

lemma parseResponse_span:
  assumes "cleanResponse raw = pre @ CHR ''{'' # mid @ CHR ''}'' # post"
    and "CHR ''{'' \<notin> set pre" and "CHR ''}'' \<notin> set post"
  shows "jsonMatch (cleanResponse raw) = Some (CHR ''{'' # mid @ [CHR ''}''])"
  using js_match_json_re_span [OF assms(2,3)] assms(1) by (simp add: jsonMatch_def)

text \<open>
  C5, as the code has it. After the code fences are stripped and the text is trimmed,
  the substring handed to \<open>JSON.parse\<close> runs from the first \<open>{\<close> to the last \<open>}\<close> of
  the text, and the outcome is decided by that substring alone. So a response whose
  cleaned text is a JSON object with prose around it that has no \<open>{\<close> before and no
  \<open>}\<close> after the object has the outcome of the object alone.
\<close>

theorem json_span_first_open_last_close:
  assumes "cleanResponse raw = pre @ CHR ''{'' # mid @ CHR ''}'' # post"
    and "CHR ''{'' \<notin> set pre" and "CHR ''}'' \<notin> set post"
    and "cleanResponse obj = CHR ''{'' # mid @ [CHR ''}'']"
  shows "jsonMatch (cleanResponse raw) = Some (CHR ''{'' # mid @ [CHR ''}''])
         \<and> parseResponse eng raw =
             (case JSON_parse eng (CHR ''{'' # mid @ [CHR ''}'']) of
                Inl e \<Rightarrow> Inl e
              | Inr structure \<Rightarrow> validate_structure eng structure)
         \<and> generatePresentationStructure eng provider (Inr raw)
             = generatePresentationStructure eng provider (Inr obj)"
proof -
  have a: "jsonMatch (cleanResponse raw) = Some (CHR ''{'' # mid @ [CHR ''}''])"
    using assms(1,2,3) by (rule parseResponse_span)
  have "cleanResponse obj = [] @ CHR ''{'' # mid @ CHR ''}'' # []" using assms(4) by simp
  then have b: "jsonMatch (cleanResponse obj) = Some (CHR ''{'' # mid @ [CHR ''}''])"
    by (rule parseResponse_span) simp_all
  from a b show ?thesis
    by (simp add: generatePresentationStructure_def parseResponse_def)
qed

definition example_outline_text :: string where
  "example_outline_text = ''{\"title\":\"T\",\"slides\":[]}''"

lemma example_outline_alone:
  "generatePresentationStructure model_engine Gemini (Inr example_outline_text)
   = Inr (JObject [(''title'', JString ''T''), (''slides'', JArray [] [])])"
  by (simp add: example_outline_text_def normalizer_eval json_eval)

theorem json_span_first_open_last_close_witness:
  "generatePresentationStructure model_engine Gemini
     (Inr (''Here it is: '' @ example_outline_text @ '' Done.''))
   = Inr (JObject [(''title'', JString ''T''), (''slides'', JArray [] [])])"
proof -
  have a: "cleanResponse (''Here it is: '' @ example_outline_text @ '' Done.'')
           = ''Here it is: '' @ CHR ''{'' # ''\"title\":\"T\",\"slides\":[]'' @ CHR ''}'' # '' Done.''"
    by (simp add: example_outline_text_def normalizer_eval)
  have b: "cleanResponse example_outline_text
           = CHR ''{'' # ''\"title\":\"T\",\"slides\":[]'' @ [CHR ''}'']"
    by (simp add: example_outline_text_def normalizer_eval)
  have "generatePresentationStructure model_engine Gemini
          (Inr (''Here it is: '' @ example_outline_text @ '' Done.''))
        = generatePresentationStructure model_engine Gemini (Inr example_outline_text)"
    using json_span_first_open_last_close [OF a _ _ b, of model_engine Gemini] by simp
  then show ?thesis by (simp only: example_outline_alone)
qed

text \<open>
  The claim as stated fails on trailing prose that holds a \<open>}\<close>: the match runs to
  that last brace, the text handed to the parser is not the object, and the response is
  rejected, while the object alone is accepted.
\<close>

theorem trailing_brace_counterexample:
  "jsonMatch (cleanResponse (example_outline_text @ '' Done :}''))
     = Some (example_outline_text @ '' Done :}'')
   \<and> generatePresentationStructure model_engine Gemini
         (Inr (example_outline_text @ '' Done :}''))
       = Inl (Error ''Generation failed: Unexpected token in JSON'')
   \<and> generatePresentationStructure model_engine Gemini (Inr example_outline_text)
       = Inr (JObject [(''title'', JString ''T''), (''slides'', JArray [] [])])"
  by (simp add: example_outline_text_def normalizer_eval json_eval)

subsection \<open>C4: the type of the first slide\<close>

lemma map_of_update_same: "map_of (AList.update k v al) k = Some v"
  by (simp add: update_conv')

text \<open>
  C4, as the code has it. When the normalizer accepts a response and the first element
  of the slide list it returns is truthy (an object, as every slide of the declared type
  is), that element has the type \<open>title\<close>, whatever type the response gave it. The
  assignment is guarded by \<open>if (structure.slides[0])\<close>, so a falsy first element is
  returned as it came.
\<close>

theorem first_slide_forced_title:
  assumes "generatePresentationStructure eng provider (Inr raw) = Inr out"
    and "get_prop eng out ''slides'' = Inr (Some (JArray (v # vs) props))"
    and "truthy v"
  shows "get_prop eng v ''type'' = Inr (Some (JString ''title''))"
proof -
  from assms(1) obtain st where
    val: "validate_structure eng st = Inr out"
    by (auto simp: generatePresentationStructure_def parseResponse_def
        split: option.splits sum.splits)
  from val obtain xs ps xs' where
    f: "force_first_title eng xs = Inr xs'"
    and s: "set_prop eng st ''slides'' (JArray xs' ps) = Inr out"
    by (auto simp: validate_structure_def split: sum.splits if_splits option.splits jsval.splits)
  from s have "get_prop eng out ''slides'' = Inr (Some (JArray xs' ps))"
    by (cases st) (auto simp: map_of_update_same)
  with assms(2) have xs': "xs' = v # vs" by simp
  from f xs' assms(3) show ?thesis
    by (cases xs; cases "hd xs")
       (auto simp: force_first_title_def map_of_update_same split: if_splits sum.splits)
qed

definition example_typed_text :: string where
  "example_typed_text =
     ''{\"title\":\"T\",\"slides\":[{\"title\":\"A\",\"content\":[],\"type\":\"content\"}]}''"

theorem first_slide_forced_title_witness:
  "generatePresentationStructure model_engine Gemini (Inr example_typed_text)
     = Inr (JObject [(''title'', JString ''T''),
         (''slides'', JArray [JObject [(''title'', JString ''A''), (''content'', JArray [] []),
            (''type'', JString ''title'')]] [])])
   \<and> get_prop model_engine
         (JObject [(''title'', JString ''A''), (''content'', JArray [] []),
            (''type'', JString ''title'')]) ''type''
       = Inr (Some (JString ''title''))"
proof -
  have a: "generatePresentationStructure model_engine Gemini (Inr example_typed_text)
     = Inr (JObject [(''title'', JString ''T''),
         (''slides'', JArray [JObject [(''title'', JString ''A''), (''content'', JArray [] []),
            (''type'', JString ''title'')]] [])])"
    by (simp add: example_typed_text_def normalizer_eval json_eval)
  have "get_prop model_engine
         (JObject [(''title'', JString ''A''), (''content'', JArray [] []),
            (''type'', JString ''title'')]) ''type''
       = Inr (Some (JString ''title''))"
    by (rule first_slide_forced_title [OF a]) simp_all
  with a show ?thesis by (simp only: simp_thms)
qed

text \<open>
  The claim as stated fails on a slide list whose first element is \<open>null\<close>: the
  response is accepted, one slide is returned, and it has no type.
\<close>

theorem null_first_slide_counterexample:
  "generatePresentationStructure model_engine Gemini
     (Inr ''{\"title\":\"T\",\"slides\":[null]}'')
     = Inr (JObject [(''title'', JString ''T''), (''slides'', JArray [JNull] [])])
   \<and> get_prop model_engine JNull ''type'' \<noteq> Inr (Some (JString ''title''))"
  by (simp add: normalizer_eval json_eval)

text \<open>
  In general: when the first element of the slide list is falsy (\<open>null\<close>, \<open>false\<close>, \<open>0\<close>
  or the empty string), the guard skips the assignment and the parsed object is returned
  as it came.
\<close>

lemma falsy_first_slide_unchanged:
  assumes "jsonMatch (cleanResponse raw) = Some jtext"
    and "JSON_parse eng jtext = Inr (JObject ps)"
    and "truthy_opt (map_of ps ''title'')"
    and "map_of ps ''slides'' = Some (JArray (v # vs) qs)"
    and "\<not> truthy v"
  shows "generatePresentationStructure eng provider (Inr raw) = Inr (JObject ps)"
proof -
  have "AList.update ''slides'' (JArray (v # vs) qs) ps = ps"
    using assms(4) by (rule update_triv)
  then have "validate_structure eng (JObject ps) = Inr (JObject ps)"
    using assms(3,4,5) by (simp add: validate_structure_def force_first_title_def)
  then show ?thesis
    using assms(1,2) by (simp add: generatePresentationStructure_def parseResponse_def)
qed

subsection \<open>C9: a fenced response\<close>

text \<open>The response \<open>j\<close> inside a Markdown code fence: \<open>```json\<close>, a line feed, \<open>j\<close>, a
  line feed, \<open>```\<close>.\<close>

definition fenced :: "string \<Rightarrow> string" where
  "fenced j = ''```json'' @ [CHR 0x0A] @ j @ [CHR 0x0A] @ ''```''"

text \<open>A text without three backticks in a row has no fence to strip.\<close>

lemma strip_fences_none:
  "\<not> str_includes s ''```'' \<Longrightarrow> js_replace_all fence_re [] s = s"
proof (induction s)
  case Nil
  show ?case by (rule strip_fences_Nil)
next
  case (Cons c cs)
  from Cons.prems have a: "\<not> startsWith (c # cs) ''```''" and b: "\<not> str_includes cs ''```''"
    by simp_all
  from b have b': "\<not> startsWith cs ''```''" by (cases cs) auto
  from a have a': "\<not> startsWith (c # cs) ''```json''" by (auto simp: startsWith_iff)
  have "fence_len (c # cs) = None"
    using a a' b' by (simp add: fence_len_def)
  then have "js_replace_all fence_re [] (c # cs) = c # js_replace_all fence_re [] cs"
    by (rule strip_fences_skip)
  with Cons.IH [OF b] show ?case by simp
qed

lemma trim_braces: "trim (CHR ''{'' # mid @ [CHR ''}'']) = CHR ''{'' # mid @ [CHR ''}'']"
  by (simp add: trim_def is_space_def code_unit_def)

lemma force_first_title_objects:
  "\<forall>v \<in> set xs. \<exists>p. v = JObject p \<Longrightarrow> \<exists>xs'. force_first_title eng xs = Inr xs'"
  by (cases xs) (auto simp: force_first_title_def)

text \<open>
  C9, as the code has it. For every text \<open>j\<close>, every engine and every provider, the
  normalizer gives the fenced text the outcome it gives \<open>j\<close> itself, an outline or an
  error. It succeeds on the fenced text, with the outline that validating the parse of
  \<open>j\<close> gives, when \<open>j\<close> is an object text \<open>{...}\<close> without three backticks in a row that
  \<open>JSON.parse\<close> reads as an object with a truthy title and an array of slide objects.
  The fences are stripped everywhere in the text, also inside a JSON string, so an object
  text that holds three backticks is changed before it is parsed.
\<close>

theorem fenced_equals_unwrapped:
  "generatePresentationStructure eng provider (Inr (fenced j))
     = generatePresentationStructure eng provider (Inr j)
   \<and> (j = CHR ''{'' # mid @ [CHR ''}''] \<and> \<not> str_includes j ''```''
        \<and> JSON_parse eng j = Inr (JObject ps)
        \<and> truthy_opt (map_of ps ''title'')
        \<and> map_of ps ''slides'' = Some (JArray xs qs)
        \<and> (\<forall>v \<in> set xs. \<exists>p. v = JObject p)
      \<longrightarrow> (\<exists>outline. generatePresentationStructure eng provider (Inr (fenced j)) = Inr outline
             \<and> generatePresentationStructure eng provider (Inr j) = Inr outline
             \<and> validate_structure eng (JObject ps) = Inr outline))"
proof -
  have eq: "cleanResponse (fenced j) = cleanResponse j"
    using strip_fences_wrapped [of j] by (simp add: cleanResponse_def fenced_def)
  then have same: "generatePresentationStructure eng provider (Inr (fenced j))
     = generatePresentationStructure eng provider (Inr j)"
    by (simp add: generatePresentationStructure_def parseResponse_def)
  have succ: "\<exists>outline. generatePresentationStructure eng provider (Inr j) = Inr outline
             \<and> validate_structure eng (JObject ps) = Inr outline"
    if j: "j = CHR ''{'' # mid @ [CHR ''}'']" and nf: "\<not> str_includes j ''```''"
      and p: "JSON_parse eng j = Inr (JObject ps)"
      and t: "truthy_opt (map_of ps ''title'')"
      and s: "map_of ps ''slides'' = Some (JArray xs qs)"
      and o: "\<forall>v \<in> set xs. \<exists>p. v = JObject p"
  proof -
    have "cleanResponse j = [] @ CHR ''{'' # mid @ CHR ''}'' # []"
      using strip_fences_none [OF nf] trim_braces [of mid] by (simp add: cleanResponse_def j)
    then have m: "jsonMatch (cleanResponse j) = Some j"
      unfolding j by (rule parseResponse_span [THEN trans]) simp_all
    from force_first_title_objects [OF o] obtain xs' where
      f: "force_first_title eng xs = Inr xs'" by blast
    have v: "validate_structure eng (JObject ps)
             = Inr (JObject (AList.update ''slides'' (JArray xs' qs) ps))"
      using t s f by (simp add: validate_structure_def)
    show ?thesis
      using m p v by (simp add: generatePresentationStructure_def parseResponse_def)
  qed
  show ?thesis using same succ by metis
qed

theorem fenced_equals_unwrapped_witness:
  "generatePresentationStructure model_engine Gemini (Inr (fenced example_typed_text))
     = Inr (JObject [(''title'', JString ''T''),
         (''slides'', JArray [JObject [(''title'', JString ''A''), (''content'', JArray [] []),
            (''type'', JString ''title'')]] [])])"
proof -
  let ?slides = "[JObject [(''title'', JString ''A''), (''content'', JArray [] []),
                    (''type'', JString ''content'')]]"
  let ?ps = "[(''title'', JString ''T''), (''slides'', JArray ?slides [])]"
  have j: "example_typed_text
           = CHR ''{'' # ''\"title\":\"T\",\"slides\":[{\"title\":\"A\",\"content\":[],\"type\":\"content\"}]''
               @ [CHR ''}'']"
    by (simp add: example_typed_text_def)
  have nf: "\<not> str_includes example_typed_text ''```''"
    by (simp add: example_typed_text_def)
  have p: "JSON_parse model_engine example_typed_text = Inr (JObject ?ps)"
    by (simp add: example_typed_text_def model_engine_def json_eval)
  have t: "truthy_opt (map_of ?ps ''title'')"
    by (simp add: truthy_opt_def)
  have s: "map_of ?ps ''slides'' = Some (JArray ?slides [])"
    by simp
  have o: "\<forall>v \<in> set ?slides. \<exists>p. v = JObject p"
    by simp
  have v: "validate_structure model_engine (JObject ?ps)
     = Inr (JObject [(''title'', JString ''T''),
         (''slides'', JArray [JObject [(''title'', JString ''A''), (''content'', JArray [] []),
            (''type'', JString ''title'')]] [])])"
    by (simp add: validate_structure_def force_first_title_def truthy_opt_def)
  from fenced_equals_unwrapped [of model_engine Gemini example_typed_text _ ?ps ?slides "[]"]
    j nf p t s o
  obtain outline where
    "generatePresentationStructure model_engine Gemini (Inr (fenced example_typed_text))
       = Inr outline"
    and "validate_structure model_engine (JObject ?ps) = Inr outline"
    by blast
  with v show ?thesis by simp
qed

text \<open>
  The claim as stated fails on a valid outline text that holds three backticks inside a
  string: \<open>JSON.parse\<close> reads the text as an outline titled with three backticks and the
  validation accepts that outline, but the fence pattern removes the backticks from the
  fenced text before it is parsed, the title that is parsed is empty, and the response
  is rejected.
\<close>

theorem backtick_title_counterexample:
  "JSON_parse model_engine ''{\"title\":\"```\",\"slides\":[]}''
     = Inr (JObject [(''title'', JString ''```''), (''slides'', JArray [] [])])
   \<and> validate_structure model_engine
         (JObject [(''title'', JString ''```''), (''slides'', JArray [] [])])
       = Inr (JObject [(''title'', JString ''```''), (''slides'', JArray [] [])])
   \<and> cleanResponse (fenced ''{\"title\":\"```\",\"slides\":[]}'')
       = ''{\"title\":\"\",\"slides\":[]}''
   \<and> generatePresentationStructure model_engine Gemini
         (Inr (fenced ''{\"title\":\"```\",\"slides\":[]}''))
       = Inl (Error ''Generation failed: Invalid structure'')"
  by (simp add: fenced_def normalizer_eval json_eval)

subsection \<open>C10: an outline without slides\<close>

text \<open>
  C10. When the text matched in the response parses to an object with a non-empty title
  string and an empty slide array, the normalizer returns that object unchanged (there
  is no first slide to retype); read at its declared type it is an outline with no
  slide, and \<open>createPresentationWithTemplate\<close> builds from it a deck with no slide and
  the file name derived from the title. No step raises.
\<close>

theorem empty_outline_accepted:
  assumes "jsonMatch (cleanResponse raw) = Some jtext"
    and "JSON_parse eng jtext = Inr (JObject ps)"
    and "map_of ps ''title'' = Some (JString t)" and "t \<noteq> []"
    and "map_of ps ''slides'' = Some (JArray [] qs)"
  shows "generatePresentationStructure eng provider (Inr raw) = Inr (JObject ps)
         \<and> as_PresentationStructure (JObject ps) = Some \<lparr>pres_title = t, pres_slides = []\<rparr>
         \<and> deck_slides (createPresentationWithTemplate bullet \<lparr>pres_title = t, pres_slides = []\<rparr> td) = []
         \<and> deck_fileName (createPresentationWithTemplate bullet \<lparr>pres_title = t, pres_slides = []\<rparr> td)
             = fileName t"
proof -
  have "AList.update ''slides'' (JArray [] qs) ps = ps"
    using assms(5) by (rule update_triv)
  then have "validate_structure eng (JObject ps) = Inr (JObject ps)"
    using assms(3,4,5) by (simp add: validate_structure_def truthy_opt_def force_first_title_def)
  then show ?thesis
    using assms
    by (simp add: generatePresentationStructure_def parseResponse_def
        createPresentationWithTemplate_def)
qed

theorem empty_outline_accepted_witness:
  "generatePresentationStructure model_engine Gemini (Inr ''{\"title\":\"Plan\",\"slides\":[]}'')
     = Inr (JObject [(''title'', JString ''Plan''), (''slides'', JArray [] [])])
   \<and> as_PresentationStructure (JObject [(''title'', JString ''Plan''), (''slides'', JArray [] [])])
     = Some \<lparr>pres_title = ''Plan'', pres_slides = []\<rparr>
   \<and> deck_slides (createPresentationWithTemplate ''*''
        \<lparr>pres_title = ''Plan'', pres_slides = []\<rparr> None) = []"
proof -
  have a: "jsonMatch (cleanResponse ''{\"title\":\"Plan\",\"slides\":[]}'')
           = Some ''{\"title\":\"Plan\",\"slides\":[]}''"
    by (simp add: normalizer_eval)
  have b: "JSON_parse model_engine ''{\"title\":\"Plan\",\"slides\":[]}''
           = Inr (JObject [(''title'', JString ''Plan''), (''slides'', JArray [] [])])"
    by (simp add: model_engine_def json_eval)
  show ?thesis
    using empty_outline_accepted [OF a b, of "''Plan''" "[]" Gemini "''*''" None] by simp
qed

section \<open>Template extraction\<close>

subsection \<open>Placeholder geometry\<close>

text \<open>The classes \<open>[^>]\<close> and \<open>[^"]\<close>.\<close>

definition not_gt :: "char \<Rightarrow> bool" where
  "not_gt c = (c \<noteq> CHR ''>'')"

definition not_quote :: "char \<Rightarrow> bool" where
  "not_quote c = (c \<noteq> CHR 0x22)"

text \<open>
  \<open><a:off x="(\d+)" y="(\d+)"[\s\S]*?<a:ext cx="(\d+)" cy="(\d+)"\<close>, the position and
  the extent of a shape in EMU.
\<close>

definition position_re :: regex where
  "position_re =
     seqs [lit ''<a:off x=\"'', Group 1 (plus is_digit), lit ''\" y=\"'', Group 2 (plus is_digit),
           lit ''\"'', StarLazy any_char,
           lit ''<a:ext cx=\"'', Group 3 (plus is_digit), lit ''\" cy=\"'', Group 4 (plus is_digit),
           lit ''\"'']"

text \<open>
  The two expressions of \<open>extractMasterLayout\<close>, for the placeholder types \<open>title\<close> and
  \<open>body\<close>:
  \<open><p:sp[^>]*>[\s\S]*?<p:ph[^>]*type="title"[\s\S]*?\<close> followed by the position.
\<close>

definition master_re :: "string \<Rightarrow> regex" where
  "master_re ty =
     seqs [lit ''<p:sp'', Star not_gt, lit ''>'', StarLazy any_char,
           lit ''<p:ph'', Star not_gt, lit (''type=\"'' @ ty @ ''\"''), StarLazy any_char,
           position_re]"

text \<open>
  The expressions of \<open>extractLayoutPositions\<close>: \<open><p:sp[^>]*>([\s\S]*?)<\/p:sp>\<close> for
  the shapes, \<open>name="([^"]+)"\<close> for the layout name and
  \<open><p:ph[^>]*(?:type="([^"]+)")?[^>]*>\<close> for the placeholder of a shape.
\<close>

definition shape_re :: regex where
  "shape_re = seqs [lit ''<p:sp'', Star not_gt, lit ''>'', Group 1 (StarLazy any_char), lit ''</p:sp>'']"

definition name_re :: regex where
  "name_re = seqs [lit ''name=\"'', Group 1 (plus not_quote), lit ''\"'']"

definition ph_re :: regex where
  "ph_re =
     seqs [lit ''<p:ph'', Star not_gt,
           Opt (seqs [lit ''type=\"'', Group 1 (plus not_quote), lit ''\"'']),
           Star not_gt, lit ''>'']"

text \<open>
  \<open>m[n]\<close> for a group that took part in the match, as every group of the expressions
  above does when they match; and \<open>parseInt\<close> on the digits such a group holds.
\<close>

definition group :: "captures \<Rightarrow> nat \<Rightarrow> string" where
  "group g n = (case g n of Some s \<Rightarrow> s | None \<Rightarrow> [])"

definition parseInt :: "string \<Rightarrow> real" where
  "parseInt d = real (digits_value d)"

text \<open>
  The box of \<open>extractMasterLayout\<close>, EMU divided by 914400, and the box of
  \<open>extractLayoutPositions\<close>, which is clamped as well:
  \<^verbatim>\<open>
    x: Math.max(0, parseInt(posMatch[1]) / 914400),
    y: Math.max(0, parseInt(posMatch[2]) / 914400),
    w: Math.min(10, parseInt(posMatch[3]) / 914400),
    h: Math.min(7.5, parseInt(posMatch[4]) / 914400)
  \<close>
\<close>

definition inch_box :: "captures \<Rightarrow> box" where
  "inch_box g =
     \<lparr>box_x = parseInt (group g 1) / 914400,
      box_y = parseInt (group g 2) / 914400,
      box_w = parseInt (group g 3) / 914400,
      box_h = parseInt (group g 4) / 914400\<rparr>"

definition clamped_box :: "captures \<Rightarrow> box" where
  "clamped_box g =
     \<lparr>box_x = max 0 (parseInt (group g 1) / 914400),
      box_y = max 0 (parseInt (group g 2) / 914400),
      box_w = min 10 (parseInt (group g 3) / 914400),
      box_h = min 7.5 (parseInt (group g 4) / 914400)\<rparr>"

text \<open>\<open>titleBox || { x: 0.5, ... }\<close>.\<close>

definition box_or_fallback :: "box option \<Rightarrow> box \<Rightarrow> box" where
  "box_or_fallback b d = (case b of Some v \<Rightarrow> v | None \<Rightarrow> d)"

text \<open>
  \<open>extractMasterLayout\<close>. Nothing in its \<open>try\<close> block raises, so the \<open>null\<close> of its
  \<open>catch\<close> is never returned.
\<close>

definition extractMasterLayout :: "string \<Rightarrow> layout option" where
  "extractMasterLayout masterXml =
     (let titleBox' = map_option (\<lambda>(m, g). inch_box g) (js_match (master_re ''title'') masterXml);
          contentBox' = map_option (\<lambda>(m, g). inch_box g) (js_match (master_re ''body'') masterXml)
      in Some \<lparr>layout_name = ''Master Layout'',
               titleBox = Some (box_or_fallback titleBox' fallback_titleBox),
               contentBox = Some (box_or_fallback contentBox' fallback_contentBox)\<rparr>)"

text \<open>
  \<open>phMatch[1] || 'content'\<close>, and the loop of \<open>extractLayoutPositions\<close> over the shapes:
  \<^verbatim>\<open>
    const phMatch = shapeContent.match(...); if (!phMatch) continue;
    const phType = phMatch[1] || 'content';
    const posMatch = shapeContent.match(...);
    if (posMatch) {
      const box = {...};
      if (phType === 'title' || phType === 'ctrTitle') { titleBox = box; }
      else if (phType === 'body' || phType === 'obj' || !titleBox) { contentBox = box; }
    }
  \<close>
\<close>

definition placeholder_type :: "captures \<Rightarrow> string" where
  "placeholder_type phMatch = (if group phMatch 1 = [] then ''content'' else group phMatch 1)"

fun place_shapes :: "captures list \<Rightarrow> box option \<Rightarrow> box option \<Rightarrow> box option \<times> box option" where
  "place_shapes [] titleBox' contentBox' = (titleBox', contentBox')"
| "place_shapes (shapeMatch # rest) titleBox' contentBox' =
     (case js_match ph_re (group shapeMatch 1) of
        None \<Rightarrow> place_shapes rest titleBox' contentBox'
      | Some (ph, phg) \<Rightarrow>
          (case js_match position_re (group shapeMatch 1) of
             None \<Rightarrow> place_shapes rest titleBox' contentBox'
           | Some (pos, posg) \<Rightarrow>
               (let phType = placeholder_type phg;
                    box = clamped_box posg
                in if phType = ''title'' \<or> phType = ''ctrTitle''
                   then place_shapes rest (Some box) contentBox'
                   else if phType = ''body'' \<or> phType = ''obj'' \<or> titleBox' = None
                   then place_shapes rest titleBox' (Some box)
                   else place_shapes rest titleBox' contentBox')))"

definition extractLayoutPositions :: "string \<Rightarrow> layout option" where
  "extractLayoutPositions layoutXml =
     (let layoutName = (case js_match name_re layoutXml of
                          Some (m, g) \<Rightarrow> group g 1 | None \<Rightarrow> ''Content Layout'');
          (titleBox', contentBox') = place_shapes (js_matchAll shape_re layoutXml) None None
      in Some \<lparr>layout_name = layoutName,
               titleBox = Some (box_or_fallback titleBox' fallback_titleBox),
               contentBox = Some (box_or_fallback contentBox' fallback_contentBox)\<rparr>)"

subsection \<open>Theme colours and fonts\<close>

text \<open>
  \<open>extractColorsFromTheme\<close>: the colour scheme is the first group of
  \<open><a:clrScheme[^>]*>([\s\S]*?)<\/a:clrScheme>\<close>, and each of the four roles is read
  from it with \<open><a:dk1>[\s\S]*?val="([A-F0-9]{6})"\<close> under the \<open>i\<close> flag (\<open>dk1\<close>, \<open>lt1\<close>,
  \<open>accent1\<close>, \<open>accent2\<close>), lower-cased and prefixed with \<open>#\<close>.
\<close>

definition is_hex_ci :: "char \<Rightarrow> bool" where
  "is_hex_ci c =
     (is_digit c \<or> (65 \<le> code_unit c \<and> code_unit c \<le> 70)
      \<or> (97 \<le> code_unit c \<and> code_unit c \<le> 102))"

definition scheme_re :: regex where
  "scheme_re =
     seqs [lit ''<a:clrScheme'', Star not_gt, lit ''>'', Group 1 (StarLazy any_char),
           lit ''</a:clrScheme>'']"

definition color_re :: "string \<Rightarrow> regex" where
  "color_re tag =
     seqs [lit_ci (''<a:'' @ tag @ ''>''), StarLazy any_char, lit_ci ''val=\"'',
           Group 1 (seqs [Chr is_hex_ci, Chr is_hex_ci, Chr is_hex_ci,
                          Chr is_hex_ci, Chr is_hex_ci, Chr is_hex_ci]),
           lit_ci ''\"'']"

definition hash_lower :: "captures \<Rightarrow> string" where
  "hash_lower g = CHR ''#'' # toLowerCase (group g 1)"

definition extractColorsFromTheme :: "string \<Rightarrow> ColorScheme" where
  "extractColorsFromTheme themeXml =
     (let colors = default_colors in
      case js_match scheme_re themeXml of
        None \<Rightarrow> colors
      | Some (schemeMatch, sg) \<Rightarrow>
          (let content = group sg 1;
               colors = (case js_match (color_re ''dk1'') content of
                           Some (m, g) \<Rightarrow> colors\<lparr>color_text := hash_lower g\<rparr>
                         | None \<Rightarrow> colors);
               colors = (case js_match (color_re ''lt1'') content of
                           Some (m, g) \<Rightarrow> colors\<lparr>color_background := hash_lower g\<rparr>
                         | None \<Rightarrow> colors);
               colors = (case js_match (color_re ''accent1'') content of
                           Some (m, g) \<Rightarrow> colors\<lparr>color_primary := hash_lower g\<rparr>
                         | None \<Rightarrow> colors);
               colors = (case js_match (color_re ''accent2'') content of
                           Some (m, g) \<Rightarrow> colors\<lparr>color_secondary := hash_lower g\<rparr>
                         | None \<Rightarrow> colors)
           in colors))"

text \<open>\<open>extractFontsFromTheme\<close>: \<open><a:majorFont>[\s\S]*?typeface="([^"]+)"\<close>, and the
  same for \<open>minorFont\<close>.\<close>

definition font_re :: "string \<Rightarrow> regex" where
  "font_re tag =
     seqs [lit (''<a:'' @ tag @ ''>''), StarLazy any_char, lit ''typeface=\"'',
           Group 1 (plus not_quote), lit ''\"'']"

definition extractFontsFromTheme :: "string \<Rightarrow> FontScheme" where
  "extractFontsFromTheme themeXml =
     (let fonts = default_fonts;
          fonts = (case js_match (font_re ''majorFont'') themeXml of
                     Some (m, g) \<Rightarrow> fonts\<lparr>font_title := group g 1\<rparr> | None \<Rightarrow> fonts);
          fonts = (case js_match (font_re ''minorFont'') themeXml of
                     Some (m, g) \<Rightarrow> fonts\<lparr>font_body := group g 1\<rparr> | None \<Rightarrow> fonts)
      in fonts)"

text \<open>
  Two colour schemes: one whose \<open>dk1\<close> is a system colour, as in the themes Office
  writes, and one with the four tokens in another order.
\<close>

definition theme_sysclr :: string where
  "theme_sysclr =
     ''<a:clrScheme name=\"Office\"><a:dk1><a:sysClr val=\"windowText\" lastClr=\"000000\"/></a:dk1><a:lt1><a:srgbClr val=\"FFFFFF\"/></a:lt1></a:clrScheme>''"

definition theme_shuffled :: string where
  "theme_shuffled =
     ''<a:clrScheme name=\"X\"><a:accent2><a:srgbClr val=\"A1B2C3\"/></a:accent2><a:lt1><a:srgbClr val=\"FFFFFF\"/></a:lt1><a:accent1><a:srgbClr val=\"4472C4\"/></a:accent1><a:dk1><a:srgbClr val=\"1A2B3C\"/></a:dk1></a:clrScheme>''"

text \<open>
  The title shape of a widescreen (13.333 by 7.5 inch) slide master: 10515600 EMU, or
  11.5 inches, wide.
\<close>

definition master_widescreen :: string where
  "master_widescreen =
     ''<p:sp><p:nvPr><p:ph type=\"title\"/></p:nvPr><a:off x=\"838200\" y=\"365125\"/><a:ext cx=\"10515600\" cy=\"1325563\"/></p:sp>''"

lemmas extract_eval = extractMasterLayout_def extractLayoutPositions_def master_re_def position_re_def
  shape_re_def name_re_def ph_re_def group_def placeholder_type_def parseInt_def inch_box_def clamped_box_def
  box_or_fallback_def not_gt_def not_quote_def match_here_def plus_def is_digit_def code_unit_def
  digits_value_def digit_value_def fallback_titleBox_def fallback_contentBox_def
  js_matchAll.simps

lemmas theme_eval = extractColorsFromTheme_def extractFontsFromTheme_def scheme_re_def color_re_def
  font_re_def hash_lower_def is_hex_ci_def is_char_ci_def toLowerCase_def toLowerCase_char_def
  is_upper_def group_def not_gt_def not_quote_def match_here_def plus_def is_digit_def code_unit_def
  default_colors_def default_fonts_def

text \<open>The canvas-clamp invariant of a box.\<close>

definition within_canvas :: "box \<Rightarrow> bool" where
  "within_canvas b = (0 \<le> box_x b \<and> 0 \<le> box_y b \<and> box_w b \<le> 10 \<and> box_h b \<le> 7.5)"

subsection \<open>The template model builder\<close>

text \<open>
  The archive as JSZip presents it: the entries of \<open>zipContent.files\<close> in the order of
  \<open>Object.keys\<close>, each a folder or a file with what \<open>async('text')\<close> and
  \<open>async('base64')\<close> give (a rejected promise is \<open>Inl\<close>). \<open>zipContent.file(name)\<close> is the
  file of that name, \<open>null\<close> for a folder or a missing name. The outcome of
  \<open>zip.loadAsync\<close> is the argument \<open>loaded\<close>.
\<close>

record zip_entry =
  entry_dir :: bool
  entry_text :: "js_error + string"
  entry_base64 :: "js_error + string"

type_synonym zip_archive = "(string \<times> zip_entry) list"

definition zip_file :: "zip_archive \<Rightarrow> string \<Rightarrow> zip_entry option" where
  "zip_file zipContent name =
     (case map_of zipContent name of
        None \<Rightarrow> None
      | Some e \<Rightarrow> if entry_dir e then None else Some e)"

text \<open>\<open>/\.(png|jpg|jpeg|gif)$/i\<close> and \<open>mediaFile.split('/').pop()\<close>.\<close>

definition media_re :: regex where
  "media_re =
     seqs [lit ''.'',
           Group 1 (Alt (lit_ci ''png'') (Alt (lit_ci ''jpg'') (Alt (lit_ci ''jpeg'') (lit_ci ''gif'')))),
           Eos]"

definition last_segment :: "string \<Rightarrow> string" where
  "last_segment path = rev (takeWhile (\<lambda>c. c \<noteq> CHR ''/'') (rev path))"

text \<open>The two \<open>for\<close> loops of \<open>extractTemplateData\<close>, over the layout files and the media
  files.\<close>

fun read_layouts :: "zip_archive \<Rightarrow> string list \<Rightarrow> js_error + layout list" where
  "read_layouts zipContent [] = Inr []"
| "read_layouts zipContent (layoutFile # rest) =
     (case zip_file zipContent layoutFile of
        None \<Rightarrow> read_layouts zipContent rest
      | Some file \<Rightarrow>
          (case entry_text file of
             Inl e \<Rightarrow> Inl e
           | Inr layoutXml \<Rightarrow>
               (case read_layouts zipContent rest of
                  Inl e \<Rightarrow> Inl e
                | Inr ls \<Rightarrow>
                    Inr ((case extractLayoutPositions layoutXml of
                            Some l \<Rightarrow> [l] | None \<Rightarrow> []) @ ls))))"

fun read_images ::
  "zip_archive \<Rightarrow> string list \<Rightarrow> (string \<times> string) list \<Rightarrow> js_error + (string \<times> string) list" where
  "read_images zipContent [] images = Inr images"
| "read_images zipContent (mediaFile # rest) images =
     (case zip_file zipContent mediaFile of
        None \<Rightarrow> read_images zipContent rest images
      | Some file \<Rightarrow>
          (case entry_base64 file of
             Inl e \<Rightarrow> Inl e
           | Inr imageData \<Rightarrow>
               read_images zipContent rest
                 (AList.update (last_segment mediaFile)
                    (''data:image/png;base64,'' @ imageData) images)))"

text \<open>
  The \<open>try\<close> block of \<open>extractTemplateData\<close>, and the function with its \<open>catch\<close>, which
  returns the default template data:
  \<^verbatim>\<open>
    } catch (error) {
      console.error('Template extraction failed:', error);
      return { colors: {...}, fonts: {...}, layouts: [], images: {},
               slideSize: { width: 10, height: 7.5 } };
    }
  \<close>
\<close>

definition extractTemplateData_try :: "js_error + zip_archive \<Rightarrow> js_error + TemplateData" where
  "extractTemplateData_try loaded =
     (case loaded of
        Inl e \<Rightarrow> Inl e
      | Inr zipContent \<Rightarrow>
          (case (case zip_file zipContent ''ppt/theme/theme1.xml'' of
                   None \<Rightarrow> Inr (default_colors, default_fonts)
                 | Some themeFile \<Rightarrow>
                     (case entry_text themeFile of
                        Inl e \<Rightarrow> Inl e
                      | Inr themeXml \<Rightarrow>
                          Inr (extractColorsFromTheme themeXml, extractFontsFromTheme themeXml))) of
             Inl e \<Rightarrow> Inl e
           | Inr (colors, fonts) \<Rightarrow>
               (case (case zip_file zipContent ''ppt/slideMasters/slideMaster1.xml'' of
                        None \<Rightarrow> Inr []
                      | Some masterFile \<Rightarrow>
                          (case entry_text masterFile of
                             Inl e \<Rightarrow> Inl e
                           | Inr masterXml \<Rightarrow>
                               Inr (case extractMasterLayout masterXml of
                                      Some l \<Rightarrow> [l] | None \<Rightarrow> []))) of
                  Inl e \<Rightarrow> Inl e
                | Inr masterLayouts \<Rightarrow>
                    (case read_layouts zipContent
                            (take 3 (filter (\<lambda>name. startsWith name ''ppt/slideLayouts/''
                                                \<and> endsWith name ''.xml'')
                                       (map fst zipContent))) of
                       Inl e \<Rightarrow> Inl e
                     | Inr fileLayouts \<Rightarrow>
                         (case read_images zipContent
                                 (take 5 (filter (\<lambda>name. startsWith name ''ppt/media/''
                                                     \<and> js_test media_re name)
                                            (map fst zipContent))) [] of
                            Inl e \<Rightarrow> Inl e
                          | Inr images \<Rightarrow>
                              Inr \<lparr>td_colors = colors, td_fonts = fonts,
                                   td_layouts = masterLayouts @ fileLayouts,
                                   td_images = images,
                                   td_slideSize = Some (10, 7.5)\<rparr>)))))"

definition extractTemplateData :: "js_error + zip_archive \<Rightarrow> js_error + TemplateData" where
  "extractTemplateData loaded =
     (case extractTemplateData_try loaded of
        Inl error \<Rightarrow> Inr default_TemplateData
      | Inr result \<Rightarrow> Inr result)"

subsection \<open>The server-side analyzer\<close>

text \<open>
  \<open>analyzeTemplate\<close> of \<open>backend/services/templateAnalyzer.js\<close>. It reads the theme and
  the layouts through the library xml2js; the two stages that go through it, from the
  theme text to the colour list and from a layout text to its placeholders, are the
  parameters \<open>themeColors\<close> and \<open>placeholders\<close>. The outcome of \<open>fs.readFileSync\<close> and
  \<open>zip.loadAsync\<close> is the argument \<open>opened\<close>. Its \<open>catch\<close> rethrows:
  \<^verbatim>\<open>
    } catch (error) {
      console.error('Template analysis error:', error);
      throw new Error('Failed to analyze template: ' + error.message);
    }
  \<close>
\<close>

record 'p layout_info =
  li_name :: string
  li_file :: string
  li_placeholders :: 'p

record image_info =
  img_name :: string
  img_path :: string
  img_data :: string

record 'p templateInfo =
  ti_colors :: "string list"
  ti_fonts :: "string list"
  ti_layouts :: "'p layout_info list"
  ti_images :: "image_info list"
  ti_slideSize :: "real \<times> real"

text \<open>\<open>s.replace(pat, rep)\<close> with a string pattern: the first occurrence.\<close>

function replace_first :: "string \<Rightarrow> string \<Rightarrow> string \<Rightarrow> string" where
  "replace_first s pat rep =
     (if startsWith s pat then rep @ drop (length pat) s
      else (case s of [] \<Rightarrow> [] | c # cs \<Rightarrow> c # replace_first cs pat rep))"
  by pat_completeness auto
termination
  by (relation "measure (\<lambda>(s, pat, rep). length s)") auto

declare replace_first.simps [simp del]

definition image_re :: regex where
  "image_re =
     seqs [lit ''.'',
           Group 1 (Alt (lit_ci ''jpg'') (Alt (lit_ci ''jpeg'') (Alt (lit_ci ''png'')
                     (Alt (lit_ci ''gif'') (lit_ci ''svg''))))),
           Eos]"

fun analyze_layouts ::
  "(string \<Rightarrow> js_error + 'p) \<Rightarrow> zip_archive \<Rightarrow> string list \<Rightarrow> js_error + 'p layout_info list" where
  "analyze_layouts placeholders contents [] = Inr []"
| "analyze_layouts placeholders contents (layoutFile # rest) =
     (case map_of contents layoutFile of
        None \<Rightarrow> Inl (Error ''Cannot read properties of undefined'')
      | Some file \<Rightarrow>
          (case entry_text file of
             Inl e \<Rightarrow> Inl e
           | Inr layoutXml \<Rightarrow>
               (case placeholders layoutXml of
                  Inl e \<Rightarrow> Inl e
                | Inr ps \<Rightarrow>
                    (case analyze_layouts placeholders contents rest of
                       Inl e \<Rightarrow> Inl e
                     | Inr ls \<Rightarrow>
                         Inr (\<lparr>li_name = replace_first
                                          (replace_first layoutFile ''ppt/slideLayouts/'' [])
                                          ''.xml'' [],
                                li_file = layoutFile, li_placeholders = ps\<rparr> # ls)))))"

fun analyze_images :: "zip_archive \<Rightarrow> string list \<Rightarrow> js_error + image_info list" where
  "analyze_images contents [] = Inr []"
| "analyze_images contents (imageFile # rest) =
     (case map_of contents imageFile of
        None \<Rightarrow> Inl (Error ''Cannot read properties of undefined'')
      | Some file \<Rightarrow>
          (case entry_base64 file of
             Inl e \<Rightarrow> Inl e
           | Inr data \<Rightarrow>
               (case analyze_images contents rest of
                  Inl e \<Rightarrow> Inl e
                | Inr is \<Rightarrow>
                    Inr (\<lparr>img_name = last_segment imageFile, img_path = imageFile,
                           img_data = data\<rparr> # is))))"

definition analyzeTemplate_try ::
  "(string \<Rightarrow> js_error + string list) \<Rightarrow> (string \<Rightarrow> js_error + 'p) \<Rightarrow>
   js_error + zip_archive \<Rightarrow> js_error + 'p templateInfo" where
  "analyzeTemplate_try themeColors placeholders opened =
     (case opened of
        Inl e \<Rightarrow> Inl e
      | Inr contents \<Rightarrow>
          (case (case map_of contents ''ppt/theme/theme1.xml'' of
                   None \<Rightarrow> Inr []
                 | Some themeFile \<Rightarrow>
                     (case entry_text themeFile of
                        Inl e \<Rightarrow> Inl e
                      | Inr themeXml \<Rightarrow> themeColors themeXml)) of
             Inl e \<Rightarrow> Inl e
           | Inr colors \<Rightarrow>
               (case analyze_layouts placeholders contents
                       (filter (\<lambda>f. startsWith f ''ppt/slideLayouts/'' \<and> endsWith f ''.xml'')
                          (map fst contents)) of
                  Inl e \<Rightarrow> Inl e
                | Inr layouts \<Rightarrow>
                    (case analyze_images contents
                            (filter (\<lambda>f. startsWith f ''ppt/media/'' \<and> js_test image_re f)
                               (map fst contents)) of
                       Inl e \<Rightarrow> Inl e
                     | Inr images \<Rightarrow>
                         Inr \<lparr>ti_colors = (if colors = []
                                           then [''#1F4E79'', ''#FFFFFF'', ''#D9E2F3'', ''#A5A5A5'']
                                           else colors),
                              ti_fonts = [''Calibri'', ''Arial'', ''Times New Roman''],
                              ti_layouts = layouts, ti_images = images,
                              ti_slideSize = (10, 7.5)\<rparr>))))"

definition analyzeTemplate ::
  "(string \<Rightarrow> js_error + string list) \<Rightarrow> (string \<Rightarrow> js_error + 'p) \<Rightarrow>
   js_error + zip_archive \<Rightarrow> js_error + 'p templateInfo" where
  "analyzeTemplate themeColors placeholders opened =
     (case analyzeTemplate_try themeColors placeholders opened of
        Inl error \<Rightarrow> Inl (Error (''Failed to analyze template: '' @ message error))
      | Inr templateInfo \<Rightarrow> Inr templateInfo)"

section \<open>Properties of the template extraction\<close>

subsection \<open>The boxes of a slide layout stay on the canvas\<close>

lemma clamped_box_within_canvas: "within_canvas (clamped_box g)"
  by (simp add: within_canvas_def clamped_box_def)

lemma fallback_within_canvas:
  "within_canvas fallback_titleBox" "within_canvas fallback_contentBox"
  by (simp_all add: within_canvas_def fallback_titleBox_def fallback_contentBox_def)

lemma place_shapes_within_canvas:
  assumes "place_shapes ms t c = (t', c')"
    and "\<forall>b. t = Some b \<longrightarrow> within_canvas b" and "\<forall>b. c = Some b \<longrightarrow> within_canvas b"
  shows "(\<forall>b. t' = Some b \<longrightarrow> within_canvas b) \<and> (\<forall>b. c' = Some b \<longrightarrow> within_canvas b)"
  using assms
proof (induction ms t c rule: place_shapes.induct)
  case (1 t c)
  then show ?case by simp
next
  case (2 shapeMatch rest t c)
  show ?case
  proof (cases "js_match ph_re (group shapeMatch 1)")
    case None
    with 2 show ?thesis by (simp del: js_match.simps)
  next
    case ph: (Some a)
    obtain phm phg where a: "a = (phm, phg)" by (cases a)
    show ?thesis
    proof (cases "js_match position_re (group shapeMatch 1)")
      case None
      with 2 ph a show ?thesis by (simp del: js_match.simps)
    next
      case pos: (Some p)
      obtain pm posg where p: "p = (pm, posg)" by (cases p)
      let ?ty = "placeholder_type phg"
      have wb: "within_canvas (clamped_box posg)" by (rule clamped_box_within_canvas)
      consider (title) "?ty = ''title'' \<or> ?ty = ''ctrTitle''"
        | (content) "\<not> (?ty = ''title'' \<or> ?ty = ''ctrTitle'')"
            "?ty = ''body'' \<or> ?ty = ''obj'' \<or> t = None"
        | (neither) "\<not> (?ty = ''title'' \<or> ?ty = ''ctrTitle'')"
            "\<not> (?ty = ''body'' \<or> ?ty = ''obj'' \<or> t = None)"
        by blast
      then show ?thesis
      proof cases
        case title
        have "place_shapes rest (Some (clamped_box posg)) c = (t', c')"
          using "2.prems"(1) ph a pos p title by (simp add: Let_def del: js_match.simps)
        moreover have "\<forall>b. Some (clamped_box posg) = Some b \<longrightarrow> within_canvas b"
          using wb by simp
        ultimately show ?thesis
          using "2.IH"(3) [OF ph a [symmetric] pos p [symmetric] refl refl title] "2.prems"(3)
          by blast
      next
        case content
        have "place_shapes rest t (Some (clamped_box posg)) = (t', c')"
          using "2.prems"(1) ph a pos p content by (simp add: Let_def del: js_match.simps)
        moreover have "\<forall>b. Some (clamped_box posg) = Some b \<longrightarrow> within_canvas b"
          using wb by simp
        ultimately show ?thesis
          using "2.IH"(4) [OF ph a [symmetric] pos p [symmetric] refl refl content] "2.prems"(2)
          by blast
      next
        case neither
        have "place_shapes rest t c = (t', c')"
          using "2.prems"(1) ph a pos p neither
          by (auto simp add: Let_def simp del: js_match.simps)
        then show ?thesis
          using "2.IH"(5) [OF ph a [symmetric] pos p [symmetric] refl refl neither] "2.prems"(2,3)
          by blast
      qed
    qed
  qed
qed

lemma extractLayoutPositions_within_canvas:
  assumes "extractLayoutPositions layoutXml = Some l"
  shows "(\<forall>b. titleBox l = Some b \<longrightarrow> within_canvas b)
         \<and> (\<forall>b. contentBox l = Some b \<longrightarrow> within_canvas b)"
proof -
  obtain t c where pc: "place_shapes (js_matchAll shape_re layoutXml) None None = (t, c)"
    by (cases "place_shapes (js_matchAll shape_re layoutXml) None None")
  from place_shapes_within_canvas [OF pc]
  have tc: "\<forall>b. t = Some b \<longrightarrow> within_canvas b" "\<forall>b. c = Some b \<longrightarrow> within_canvas b"
    by simp_all
  have "within_canvas (box_or_fallback t fallback_titleBox)"
    using tc(1) fallback_within_canvas(1) by (cases t) (simp_all add: box_or_fallback_def)
  moreover have "within_canvas (box_or_fallback c fallback_contentBox)"
    using tc(2) fallback_within_canvas(2) by (cases c) (simp_all add: box_or_fallback_def)
  ultimately show ?thesis
    using assms pc by (auto simp: extractLayoutPositions_def Let_def)
qed

subsection \<open>C1: the boxes of the slide master\<close>

text \<open>
  C1. Every box that \<open>extractLayoutPositions\<close> returns, recovered or fallback, keeps the
  canvas-clamp invariant (the lemma above). \<open>extractMasterLayout\<close> converts EMU to inches
  without the clamp: from the title shape of a widescreen master, 10515600 EMU wide, it
  returns a title box 11.5 inches wide, which breaks \<open>width \<le> 10\<close>.
\<close>

theorem master_box_not_clamped:
  "extractMasterLayout master_widescreen
     = Some \<lparr>layout_name = ''Master Layout'',
             titleBox = Some \<lparr>box_x = 838200 / 914400, box_y = 365125 / 914400,
                               box_w = 11.5, box_h = 1325563 / 914400\<rparr>,
             contentBox = Some \<lparr>box_x = 0.5, box_y = 2, box_w = 9, box_h = 4.5\<rparr>\<rparr>
   \<and> \<not> within_canvas \<lparr>box_x = 838200 / 914400, box_y = 365125 / 914400,
                         box_w = 11.5, box_h = 1325563 / 914400\<rparr>"
  by (simp add: master_widescreen_def extract_eval within_canvas_def)

subsection \<open>C6: the colours of the theme\<close>

text \<open>
  C6. In a colour scheme whose \<open>dk1\<close> holds a system colour and no \<open>srgbClr\<close> token,
  and whose \<open>lt1\<close> holds the token \<open>FFFFFF\<close>, the lazy \<open>[\s\S]*?\<close> after \<open><a:dk1>\<close> runs
  past the end of the element to the token of \<open>lt1\<close>: the text colour becomes
  \<open>#ffffff\<close> and is not left at its default \<open>#374151\<close>.
\<close>

theorem sysclr_takes_next_token:
  "extractColorsFromTheme theme_sysclr
     = \<lparr>color_primary = ''#2563eb'', color_secondary = ''#7c3aed'', color_accent = ''#059669'',
        color_text = ''#ffffff'', color_background = ''#ffffff''\<rparr>
   \<and> color_text (extractColorsFromTheme theme_sysclr) \<noteq> color_text default_colors"
  by (simp add: theme_sysclr_def theme_eval)

text \<open>With the four tokens present, in another order than the roles are read, each
  role gets its own token.\<close>

lemma shuffled_tokens_example:
  "extractColorsFromTheme theme_shuffled
     = \<lparr>color_primary = ''#4472c4'', color_secondary = ''#a1b2c3'', color_accent = ''#059669'',
        color_text = ''#1a2b3c'', color_background = ''#ffffff''\<rparr>"
  by (simp add: theme_shuffled_def theme_eval)

subsection \<open>C3: an archive that cannot be read\<close>

text \<open>
  An XML stage that rejects every text; it stands for xml2js where the archive is never
  opened.
\<close>

definition rejecting_parser :: "string \<Rightarrow> js_error + 'a" where
  "rejecting_parser xml = Inl (Error ''Non-whitespace before first tag.'')"

text \<open>
  C3, as the code has it. \<open>extractTemplateData\<close>, the builder of the browser
  application, never raises: for an archive that cannot be opened, and for any failure
  inside its \<open>try\<close> block, it returns the default template data (default colours and
  fonts, no layout, no image, a 10 by 7.5 canvas). \<open>analyzeTemplate\<close>, the builder of
  the server, rethrows the failure of an archive that cannot be opened as
  \<open>Failed to analyze template: ...\<close>.
\<close>

theorem extractTemplateData_absorbs:
  "(\<exists>td. extractTemplateData loaded = Inr td)
   \<and> extractTemplateData (Inl e) = Inr default_TemplateData
   \<and> (extractTemplateData_try loaded = Inl e' \<longrightarrow>
        extractTemplateData loaded = Inr default_TemplateData)
   \<and> default_TemplateData
       = \<lparr>td_colors = \<lparr>color_primary = ''#2563eb'', color_secondary = ''#7c3aed'',
                        color_accent = ''#059669'', color_text = ''#374151'',
                        color_background = ''#ffffff''\<rparr>,
          td_fonts = \<lparr>font_title = ''Calibri'', font_body = ''Calibri''\<rparr>,
          td_layouts = [], td_images = [], td_slideSize = Some (10, 7.5)\<rparr>
   \<and> analyzeTemplate themeColors placeholders (Inl e)
       = Inl (Error (''Failed to analyze template: '' @ message e))"
proof -
  have "\<exists>td. extractTemplateData loaded = Inr td"
    by (cases "extractTemplateData_try loaded") (simp_all add: extractTemplateData_def)
  moreover have "extractTemplateData (Inl e) = Inr default_TemplateData"
    by (simp add: extractTemplateData_def extractTemplateData_try_def)
  moreover have "extractTemplateData_try loaded = Inl e' \<longrightarrow>
        extractTemplateData loaded = Inr default_TemplateData"
    by (simp add: extractTemplateData_def)
  moreover have "analyzeTemplate themeColors placeholders (Inl e)
       = Inl (Error (''Failed to analyze template: '' @ message e))"
    by (simp add: analyzeTemplate_def analyzeTemplate_try_def)
  ultimately show ?thesis
    by (simp add: default_TemplateData_def default_colors_def default_fonts_def)
qed

definition archive_unreadable_theme :: zip_archive where
  "archive_unreadable_theme =
     [(''ppt/theme/theme1.xml'',
       \<lparr>entry_dir = False, entry_text = Inl (Error ''Corrupted zip''),
        entry_base64 = Inl (Error ''Corrupted zip'')\<rparr>)]"

theorem extractTemplateData_absorbs_witness:
  "extractTemplateData_try (Inr archive_unreadable_theme) = Inl (Error ''Corrupted zip'')
   \<and> extractTemplateData (Inr archive_unreadable_theme) = Inr default_TemplateData"
proof -
  have a: "extractTemplateData_try (Inr archive_unreadable_theme) = Inl (Error ''Corrupted zip'')"
    by (simp add: extractTemplateData_try_def archive_unreadable_theme_def zip_file_def)
  with extractTemplateData_absorbs [of "Inr archive_unreadable_theme" _ "Error ''Corrupted zip''"]
  have "extractTemplateData (Inr archive_unreadable_theme) = Inr default_TemplateData"
    by blast
  with a show ?thesis by (simp only: simp_thms)
qed

text \<open>
  The claim as stated fails on the server: an archive that cannot be opened makes
  \<open>analyzeTemplate\<close> raise.
\<close>

theorem analyzeTemplate_rethrows_counterexample:
  "analyzeTemplate (rejecting_parser :: string \<Rightarrow> js_error + string list)
     (rejecting_parser :: string \<Rightarrow> js_error + unit) (Inl (Error ''Corrupted zip''))
   = Inl (Error ''Failed to analyze template: Corrupted zip'')"
  by (simp add: analyzeTemplate_def analyzeTemplate_try_def)

end
